theory Spec2Isabelle
  imports Main "HOL-Library.Sublist"
begin

section \<open>The language layer: numbers, strings and values of the component\<close>

subsection \<open>Numbers\<close>

text \<open>
  A TypeScript \<open>number\<close> is an IEEE 754 double. \<open>Finite m e\<close> stands for the double
  \<open>m * 2 ^ e\<close>, kept in lowest terms (\<open>m\<close> odd, or \<open>m = 0\<close> and \<open>e = 0\<close>), so that two
  finite numbers are equal exactly when their constructors are. The two zeros are one
  value here: the component only prints numbers, compares them with \<open>0\<close> and multiplies
  them by \<open>100\<close>, and \<open>-0\<close> prints as \<open>0\<close> everywhere (template literal,
  \<open>JSON.stringify\<close>, \<open>toFixed\<close>).
\<close>

datatype number = NaN | PosInfinity | NegInfinity | Finite int int

definition isNaN :: "number \<Rightarrow> bool" where
  "isNaN x = (x = NaN)"

definition isFinite :: "number \<Rightarrow> bool" where
  "isFinite x = (case x of Finite m e \<Rightarrow> True | _ \<Rightarrow> False)"

text \<open>The number of binary, and of decimal, digits of a positive integer.\<close>

function bit_length :: "int \<Rightarrow> int" where
  "bit_length n = (if n \<le> 0 then 0 else 1 + bit_length (n div 2))"
  by pat_completeness auto
termination
  by (relation "measure nat") auto

declare bit_length.simps [simp del]

function dec_length :: "int \<Rightarrow> int" where
  "dec_length n = (if n \<le> 0 then 0 else 1 + dec_length (n div 10))"
  by pat_completeness auto
termination
  by (relation "measure nat") auto

declare dec_length.simps [simp del]

text \<open>
  For a positive fraction \<open>p / q\<close>: the exponent \<open>e\<close> with
  \<open>2 ^ e \<le> p / q < 2 ^ (e + 1)\<close>, and the same in base ten.
\<close>

definition floor_log2 :: "int \<Rightarrow> int \<Rightarrow> int" where
  "floor_log2 p q =
     (if q \<le> p then bit_length (p div q) - 1
      else - bit_length ((q + p - 1) div p - 1))"

definition floor_log10 :: "int \<Rightarrow> int \<Rightarrow> int" where
  "floor_log10 p q =
     (if q \<le> p then dec_length (p div q) - 1
      else - dec_length ((q + p - 1) div p - 1))"

definition round_half_even :: "int \<Rightarrow> int \<Rightarrow> int" where
  "round_half_even p q =
     (let n = p div q; r = p mod q
      in if 2 * r < q then n
         else if q < 2 * r then n + 1
         else if even n then n else n + 1)"

function normalize_dyadic :: "int \<Rightarrow> int \<Rightarrow> int \<times> int" where
  "normalize_dyadic m e =
     (if m = 0 then (0, 0)
      else if even m then normalize_dyadic (m div 2) (e + 1)
      else (m, e))"
  by pat_completeness auto
termination
  by (relation "measure (\<lambda>(m, e). nat \<bar>m\<bar>)") auto

declare normalize_dyadic.simps [simp del]

text \<open>
  The double nearest to the fraction \<open>p / q\<close> (\<open>0 < q\<close>), ties to the even significand:
  53 significant bits, the exponent not below \<open>-1022\<close> (subnormals), infinity from
  \<open>2 ^ 1024\<close> on. This is the rounding of every arithmetic result and of every decimal
  literal.
\<close>

definition round_to_double :: "int \<Rightarrow> int \<Rightarrow> number" where
  "round_to_double p q =
     (if p = 0 then Finite 0 0
      else let a = \<bar>p\<bar>;
               e = max (floor_log2 a q) (- 1022);
               n = round_half_even (a * 2 ^ nat (52 - e)) (q * 2 ^ nat (e - 52))
           in if 2 ^ 1024 \<le> n * 2 ^ nat (e - 52)
              then (if 0 < p then PosInfinity else NegInfinity)
              else (case normalize_dyadic n (e - 52) of
                      (m, e') \<Rightarrow> Finite (if 0 < p then m else - m) e'))"

text \<open>The number a decimal literal \<open>p / 10 ^ k\<close> denotes, for instance \<open>6.5\<close> as \<open>decimal 65 1\<close>.\<close>

definition decimal :: "int \<Rightarrow> int \<Rightarrow> number" where
  "decimal p k = round_to_double p (10 ^ nat k)"

text \<open>Numerator and denominator of a finite double.\<close>

definition fraction :: "int \<Rightarrow> int \<Rightarrow> int \<times> int" where
  "fraction m e = (m * 2 ^ nat e, 2 ^ nat (- e))"

text \<open>The product of two doubles.\<close>

fun multiply :: "number \<Rightarrow> number \<Rightarrow> number" where
  "multiply NaN y = NaN"
| "multiply x NaN = NaN"
| "multiply (Finite m e) (Finite m' e') =
     (case fraction (m * m') (e + e') of (p, q) \<Rightarrow> round_to_double p q)"
| "multiply (Finite m e) y =
     (if m = 0 then NaN
      else if (0 < m) = (y = PosInfinity) then PosInfinity else NegInfinity)"
| "multiply x (Finite m e) =
     (if m = 0 then NaN
      else if (0 < m) = (x = PosInfinity) then PosInfinity else NegInfinity)"
| "multiply x y = (if x = y then PosInfinity else NegInfinity)"

definition greater_than_zero :: "number \<Rightarrow> bool" where
  "greater_than_zero x = (case x of PosInfinity \<Rightarrow> True | Finite m e \<Rightarrow> 0 < m | _ \<Rightarrow> False)"

subsection \<open>Printing numbers\<close>

function digits :: "int \<Rightarrow> string" where
  "digits n =
     (if n < 10 then [char_of (48 + n)]
      else digits (n div 10) @ [char_of (48 + n mod 10)])"
  by pat_completeness auto
termination
  by (relation "measure nat") auto

declare digits.simps [simp del]

definition zeros :: "int \<Rightarrow> string" where
  "zeros n = replicate (nat n) (CHR ''0'')"

text \<open>
  \<open>Number::toString\<close> (radix ten) prints the shortest digit string \<open>s\<close>, of \<open>k\<close> digits, with
  a decimal exponent \<open>n\<close>, such that \<open>s * 10 ^ (n - k)\<close> rounds to the number; among several
  such \<open>s\<close>, the one nearest to the number. The value lies in \<open>[10 ^ (n - 1), 10 ^ n)\<close>, so
  for each \<open>k\<close> only the two \<open>k\<close>-digit neighbours of the number need a look.
\<close>

definition scaled :: "int \<Rightarrow> int \<Rightarrow> number" where
  "scaled s t = (if 0 \<le> t then round_to_double (s * 10 ^ nat t) 1 else round_to_double s (10 ^ nat (- t)))"

definition nearer :: "int \<Rightarrow> int \<Rightarrow> int" where
  "nearer N D =
     (let lo = N div D; r = N mod D
      in if 2 * r < D then lo else if D < 2 * r then lo + 1
         else if even lo then lo else lo + 1)"

definition digits_at :: "number \<Rightarrow> int \<Rightarrow> int \<Rightarrow> int \<Rightarrow> int \<Rightarrow> int option" where
  "digits_at x p q n k =
     (let N = p * 10 ^ nat (k - n); D = q * 10 ^ nat (n - k);
          lo = N div D; hi = lo + 1;
          ok_lo = (scaled lo (n - k) = x); ok_hi = (scaled hi (n - k) = x)
      in if ok_lo \<and> ok_hi then Some (nearer N D)
         else if ok_lo then Some lo
         else if ok_hi then Some hi
         else None)"

fun find_digits :: "nat \<Rightarrow> number \<Rightarrow> int \<Rightarrow> int \<Rightarrow> int \<Rightarrow> int \<Rightarrow> int \<times> int" where
  "find_digits 0 x p q n k = (k, nearer (p * 10 ^ nat (k - n)) (q * 10 ^ nat (n - k)))"
| "find_digits (Suc fuel) x p q n k =
     (case digits_at x p q n k of
        Some s \<Rightarrow> (k, s)
      | None \<Rightarrow> find_digits fuel x p q n (k + 1))"

definition Number_toString_positive :: "int \<Rightarrow> int \<Rightarrow> string" where
  "Number_toString_positive m e =
     (case fraction m e of (p, q) \<Rightarrow>
      let n0 = floor_log10 p q + 1 in
      case find_digits 16 (Finite m e) p q n0 1 of (k, s0) \<Rightarrow>
      let s = (if s0 = 10 ^ nat k then 10 ^ nat (k - 1) else s0);
          n = (if s0 = 10 ^ nat k then n0 + 1 else n0);
          ds = digits s
      in if k \<le> n \<and> n \<le> 21 then ds @ zeros (n - k)
         else if 0 < n \<and> n \<le> 21 then take (nat n) ds @ ''.'' @ drop (nat n) ds
         else if - 6 < n \<and> n \<le> 0 then ''0.'' @ zeros (- n) @ ds
         else let ex = n - 1;
                  sg = (if ex < 0 then ''-'' else ''+'');
                  es = digits \<bar>ex\<bar>
              in if k = 1 then ds @ ''e'' @ sg @ es
                 else take 1 ds @ ''.'' @ drop 1 ds @ ''e'' @ sg @ es)"

definition Number_toString :: "number \<Rightarrow> string" where
  "Number_toString x =
     (case x of
        NaN \<Rightarrow> ''NaN''
      | PosInfinity \<Rightarrow> ''Infinity''
      | NegInfinity \<Rightarrow> ''-Infinity''
      | Finite m e \<Rightarrow>
          if m = 0 then ''0''
          else if m < 0 then ''-'' @ Number_toString_positive (- m) e
          else Number_toString_positive m e)"

text \<open>
  \<open>Number.prototype.toFixed(f)\<close>: the integer \<open>n\<close> with \<open>n / 10 ^ f\<close> nearest to the exact
  value of the double (the larger \<open>n\<close> on a tie), printed with \<open>f\<close> digits after the point;
  from \<open>10 ^ 21\<close> on, and for a number that is not finite, the plain \<open>toString\<close>. The
  component calls it with the literals \<open>1\<close> and \<open>2\<close> only, so the \<open>RangeError\<close> for a digit
  count above \<open>100\<close> does not arise.
\<close>

definition toFixed :: "nat \<Rightarrow> number \<Rightarrow> string" where
  "toFixed f x =
     (case x of
        Finite m e \<Rightarrow>
          (case fraction \<bar>m\<bar> e of (p, q) \<Rightarrow>
           let sg = (if m < 0 then ''-'' else '''') in
           if 10 ^ 21 * q \<le> p then sg @ Number_toString (Finite \<bar>m\<bar> e)
           else let n = (2 * p * 10 ^ f + q) div (2 * q);
                    ds = digits n;
                    ds' = (if length ds \<le> f then replicate (f + 1 - length ds) (CHR ''0'') @ ds else ds);
                    k = length ds'
                in sg @ (if f = 0 then ds' else take (k - f) ds' @ ''.'' @ drop (k - f) ds'))
      | _ \<Rightarrow> Number_toString x)"

subsection \<open>Strings\<close>

text \<open>
  A string is the list of the bytes of its UTF-8 encoding. The component concatenates
  strings, asks whether one is empty and replaces the ASCII underscore; the bytes of a
  character outside ASCII are all above \<open>0x7F\<close>, so none of this depends on the encoding.
  The degree sign of the summary message is the two bytes \<open>0xC2 0xB0\<close>. The renderer
  indents three lines of each record with a space followed by a no-break space
  (U+00A0), the bytes \<open>0x20 0xC2 0xA0\<close>.
\<close>

definition degree_sign :: string where
  "degree_sign = [CHR 0xC2, CHR 0xB0]"

definition indentation :: string where
  "indentation = [CHR 0x20, CHR 0xC2, CHR 0xA0]"

text \<open>
  The \<open>length\<close> of a string counts UTF-16 code units: one for each character of one to
  three bytes, two for a character of four bytes.
\<close>

definition code_units :: "char \<Rightarrow> nat" where
  "code_units c =
     (let b = (of_char c :: nat)
      in if 128 \<le> b \<and> b < 192 then 0 else if 240 \<le> b then 2 else 1)"

definition String_length :: "string \<Rightarrow> nat" where
  "String_length s = sum_list (map code_units s)"

text \<open>\<open>Array.prototype.join\<close> on an array of strings, and \<open>replace(/_/g, ' ')\<close>.\<close>

fun join :: "string \<Rightarrow> string list \<Rightarrow> string" where
  "join sep [] = []"
| "join sep [x] = x"
| "join sep (x # y # ys) = x @ sep @ join sep (y # ys)"

definition replace_underscores :: "string \<Rightarrow> string" where
  "replace_underscores s = map (\<lambda>c. if c = CHR ''_'' then CHR '' '' else c) s"

subsection \<open>Values and errors\<close>

text \<open>
  The payload of a response has the type \<open>any\<close>: it is whatever \<open>response.json()\<close> parsed.
  \<open>Obj\<close> carries the own properties of an object in insertion order, \<open>Undefined\<close> is what
  reading a missing property gives.
\<close>

datatype jsval =
    Undefined
  | Null
  | Bool bool
  | Num number
  | Str string
  | Arr "jsval list"
  | Obj "(string \<times> jsval) list"

text \<open>
  What can be thrown, or reject a promise, in this component: the \<open>Error\<close> that the
  component itself creates with a message; a \<open>TypeError\<close> of the engine, raised while
  the renderer evaluates a malformed payload; and a rejection of \<open>fetch\<close> or of
  \<open>response.json()\<close>, which arrives from outside with its message. A \<open>TypeError\<close> carries
  the expression of the component whose value was at fault, as written in the source,
  and the cause: the value and the member that was read or called on it.
\<close>

datatype cause =
    ReadOfNullish jsval string
  | NotAFunction jsval string
  | NoPrimitiveValue jsval

datatype error =
    Error string
  | TypeError string cause
  | Rejection string

text \<open>
  What the engine supplies and this development leaves open: \<open>parseFloat\<close>, the conversion
  of a string to a number (\<open>StringToNumber\<close>), and the wording of the message of a
  \<open>TypeError\<close>, which may depend on the expression and on the cause. Every theorem below
  holds for all three.
\<close>

record engine =
  parseFloat :: "string \<Rightarrow> number"
  StringToNumber :: "string \<Rightarrow> number"
  TypeError_message :: "string \<Rightarrow> cause \<Rightarrow> string"

definition message_of :: "engine \<Rightarrow> error \<Rightarrow> string" where
  "message_of rt err =
     (case err of
        Error m \<Rightarrow> m
      | TypeError site c \<Rightarrow> TypeError_message rt site c
      | Rejection m \<Rightarrow> m)"

text \<open>
  Sequencing of evaluations that may throw. The conversions below report the cause of
  a failure; \<open>located\<close> makes it the \<open>TypeError\<close> thrown at an expression of the component.
\<close>

definition bind_result :: "'e + 'a \<Rightarrow> ('a \<Rightarrow> 'e + 'b) \<Rightarrow> 'e + 'b" where
  "bind_result r f = (case r of Inl err \<Rightarrow> Inl err | Inr v \<Rightarrow> f v)"

definition located :: "string \<Rightarrow> cause + 'a \<Rightarrow> error + 'a" where
  "located site r = (case r of Inl c \<Rightarrow> Inl (TypeError site c) | Inr v \<Rightarrow> Inr v)"

text \<open>\<open>ToBoolean\<close>, as applied by \<open>&&\<close>.\<close>

fun ToBoolean :: "jsval \<Rightarrow> bool" where
  "ToBoolean Undefined = False"
| "ToBoolean Null = False"
| "ToBoolean (Bool b) = b"
| "ToBoolean (Num x) = (case x of NaN \<Rightarrow> False | Finite m e \<Rightarrow> m \<noteq> 0 | _ \<Rightarrow> True)"
| "ToBoolean (Str s) = (s \<noteq> [])"
| "ToBoolean (Arr xs) = True"
| "ToBoolean (Obj ps) = True"

text \<open>
  Reading a property \<open>v.name\<close>, for the names the component reads as data
  (\<open>recommendations\<close>, \<open>length\<close> and the fields of a record): none of them is a member of a
  built-in prototype, so only an own property of an object, and the \<open>length\<close> of a string
  or array, is ever found. Reading from \<open>undefined\<close> or \<open>null\<close> throws.
\<close>

definition number_of_nat :: "nat \<Rightarrow> number" where
  "number_of_nat n = round_to_double (int n) 1"

fun get :: "jsval \<Rightarrow> string \<Rightarrow> cause + jsval" where
  "get Undefined name = Inl (ReadOfNullish Undefined name)"
| "get Null name = Inl (ReadOfNullish Null name)"
| "get (Obj ps) name = Inr (case map_of ps name of Some v \<Rightarrow> v | None \<Rightarrow> Undefined)"
| "get (Str s) name = Inr (if name = ''length'' then Num (number_of_nat (String_length s)) else Undefined)"
| "get (Arr xs) name = Inr (if name = ''length'' then Num (number_of_nat (length xs)) else Undefined)"
| "get v name = Inr Undefined"

text \<open>
  \<open>ToString\<close>, as applied by a template literal. An array prints its elements joined by
  commas, \<open>undefined\<close> and \<open>null\<close> elements as nothing. A parsed object has no callable
  property of its own, so it prints as \<open>[object Object]\<close> through the prototype unless an
  own property \<open>toString\<close> hides that method; then no conversion is left and the engine
  throws.
\<close>

fun ToString :: "jsval \<Rightarrow> cause + string"
  and join_elements :: "jsval list \<Rightarrow> cause + string" where
  "ToString Undefined = Inr ''undefined''"
| "ToString Null = Inr ''null''"
| "ToString (Bool b) = Inr (if b then ''true'' else ''false'')"
| "ToString (Num x) = Inr (Number_toString x)"
| "ToString (Str s) = Inr s"
| "ToString (Arr xs) = join_elements xs"
| "ToString (Obj ps) =
     (if map_of ps ''toString'' = None then Inr ''[object Object]''
      else Inl (NoPrimitiveValue (Obj ps)))"
| "join_elements [] = Inr []"
| "join_elements (x # xs) =
     bind_result (if x = Undefined \<or> x = Null then Inr [] else ToString x) (\<lambda>s.
     if xs = [] then Inr s
     else bind_result (join_elements xs) (\<lambda>t. Inr (s @ '','' @ t)))"

text \<open>\<open>ToNumber\<close>, as applied by \<open>*\<close> and \<open>>\<close>; an object or array goes through its string.\<close>

fun ToNumber :: "engine \<Rightarrow> jsval \<Rightarrow> cause + number" where
  "ToNumber rt Undefined = Inr NaN"
| "ToNumber rt Null = Inr (Finite 0 0)"
| "ToNumber rt (Bool b) = Inr (if b then Finite 1 0 else Finite 0 0)"
| "ToNumber rt (Num x) = Inr x"
| "ToNumber rt (Str s) = Inr (StringToNumber rt s)"
| "ToNumber rt v = bind_result (ToString v) (\<lambda>s. Inr (StringToNumber rt s))"

text \<open>The method call \<open>v.toFixed(f)\<close>: only a number has the method.\<close>

fun call_toFixed :: "jsval \<Rightarrow> nat \<Rightarrow> cause + string" where
  "call_toFixed Undefined f = Inl (ReadOfNullish Undefined ''toFixed'')"
| "call_toFixed Null f = Inl (ReadOfNullish Null ''toFixed'')"
| "call_toFixed (Num x) f = Inr (toFixed f x)"
| "call_toFixed v f = Inl (NotAFunction v ''toFixed'')"

subsection \<open>\<open>JSON.stringify\<close>\<close>

definition hex_digit :: "nat \<Rightarrow> char" where
  "hex_digit n = (if n < 10 then char_of (48 + n) else char_of (87 + n))"

definition quote_char :: "char \<Rightarrow> string" where
  "quote_char c =
     (let b = (of_char c :: nat)
      in if b = 34 then [CHR 0x5C, CHR 0x22]
         else if b = 92 then [CHR 0x5C, CHR 0x5C]
         else if b = 8 then [CHR 0x5C, CHR ''b'']
         else if b = 9 then [CHR 0x5C, CHR ''t'']
         else if b = 10 then [CHR 0x5C, CHR ''n'']
         else if b = 12 then [CHR 0x5C, CHR ''f'']
         else if b = 13 then [CHR 0x5C, CHR ''r'']
         else if b < 32 then [CHR 0x5C, CHR ''u'', CHR ''0'', CHR ''0'', hex_digit (b div 16), hex_digit (b mod 16)]
         else [c])"

definition quote :: "string \<Rightarrow> string" where
  "quote s = [CHR 0x22] @ concat (map quote_char s) @ [CHR 0x22]"

text \<open>
  \<open>None\<close> is the result \<open>undefined\<close>: a property with that value is left out of an
  object, an element with that value is printed as \<open>null\<close>. A number that is not finite
  is printed as \<open>null\<close>. The keys are printed in insertion order, which is the order of
  \<open>JSON.stringify\<close> for keys that are not array indices.
\<close>

definition JSON_number :: "number \<Rightarrow> string" where
  "JSON_number x = (if isFinite x then Number_toString x else ''null'')"

fun JSON_stringify :: "jsval \<Rightarrow> string option"
  and JSON_members :: "(string \<times> jsval) list \<Rightarrow> string list"
  and JSON_elements :: "jsval list \<Rightarrow> string list" where
  "JSON_stringify Undefined = None"
| "JSON_stringify Null = Some ''null''"
| "JSON_stringify (Bool b) = Some (if b then ''true'' else ''false'')"
| "JSON_stringify (Num x) = Some (JSON_number x)"
| "JSON_stringify (Str s) = Some (quote s)"
| "JSON_stringify (Arr xs) = Some (''['' @ join '','' (JSON_elements xs) @ '']'')"
| "JSON_stringify (Obj ps) = Some (''{'' @ join '','' (JSON_members ps) @ ''}'')"
| "JSON_members [] = []"
| "JSON_members ((k, v) # ps) =
     (case JSON_stringify v of
        None \<Rightarrow> JSON_members ps
      | Some s \<Rightarrow> (quote k @ '':'' @ s) # JSON_members ps)"
| "JSON_elements [] = []"
| "JSON_elements (x # xs) =
     (case JSON_stringify x of None \<Rightarrow> ''null'' | Some s \<Rightarrow> s) # JSON_elements xs"

section \<open>The chat widget\<close>

subsection \<open>State\<close>

datatype sender = User | Bot

record message =
  sender :: sender
  "text" :: string

text \<open>
  The six \<open>useState\<close> cells of the component. A field of the form holds \<open>null\<close>
  (\<open>None\<close>) or a number. Every update of \<open>messages\<close> in the source is a functional update
  \<open>prev => [...prev, ...]\<close>, so it applies to the transcript as it is when the update
  runs, which is what passing the state along expresses.
\<close>

record state =
  isVisible :: bool
  messages :: "message list"
  soilpH :: "number option"
  soilMoisture :: "number option"
  temperatureC :: "number option"
  rainfallMm :: "number option"

definition initial :: state where
  "initial =
     \<lparr>isVisible = False,
      messages =
        [\<lparr>sender = Bot,
          text = ''Welcome to the Farm AI Chatbot! Please enter the following information to get crop recommendations:''\<rparr>],
      soilpH = None,
      soilMoisture = None,
      temperatureC = None,
      rainfallMm = None\<rparr>"

definition requiredFields :: "string list" where
  "requiredFields = [''Soil_pH'', ''Soil_Moisture'', ''Temperature_C'', ''Rainfall_mm'']"

definition inputs :: "state \<Rightarrow> number option \<times> number option \<times> number option \<times> number option" where
  "inputs s = (soilpH s, soilMoisture s, temperatureC s, rainfallMm s)"

subsection \<open>Visibility and the input controls\<close>

definition toggleChatbot :: "state \<Rightarrow> state" where
  "toggleChatbot s = s\<lparr>isVisible := \<not> isVisible s\<rparr>"

text \<open>
  The \<open>onChange\<close> handler of each control:
  \<open>e.target.value === '' ? null : parseFloat(e.target.value)\<close>.
\<close>

definition entered :: "engine \<Rightarrow> string \<Rightarrow> number option" where
  "entered rt v = (if v = [] then None else Some (parseFloat rt v))"

definition onChange_soil_ph :: "engine \<Rightarrow> string \<Rightarrow> state \<Rightarrow> state" where
  "onChange_soil_ph rt v s = s\<lparr>soilpH := entered rt v\<rparr>"

definition onChange_soil_moisture :: "engine \<Rightarrow> string \<Rightarrow> state \<Rightarrow> state" where
  "onChange_soil_moisture rt v s = s\<lparr>soilMoisture := entered rt v\<rparr>"

definition onChange_temperature :: "engine \<Rightarrow> string \<Rightarrow> state \<Rightarrow> state" where
  "onChange_temperature rt v s = s\<lparr>temperatureC := entered rt v\<rparr>"

definition onChange_rainfall :: "engine \<Rightarrow> string \<Rightarrow> state \<Rightarrow> state" where
  "onChange_rainfall rt v s = s\<lparr>rainfallMm := entered rt v\<rparr>"

subsection \<open>The request\<close>

record request =
  url :: string
  "method" :: string
  headers :: "(string \<times> string) list"
  body :: "string option"

text \<open>
  \<open>dataToSend\<close> is declared with number values, but \<open>value as number\<close> checks nothing:
  the entries are those of \<open>farmInputs\<close>. A property read gives \<open>undefined\<close> for a
  missing key.
\<close>

definition property :: "(string \<times> number option) list \<Rightarrow> string \<Rightarrow> jsval" where
  "property obj key =
     (case map_of obj key of
        None \<Rightarrow> Undefined
      | Some None \<Rightarrow> Null
      | Some (Some x) \<Rightarrow> Num x)"

definition requestBody :: "(string \<times> number option) list \<Rightarrow> string option" where
  "requestBody dataToSend =
     (let farmInputsData =
            Obj [(''Soil_pH'', property dataToSend ''Soil_pH''),
                 (''Soil_Moisture'', property dataToSend ''Soil_Moisture'')];
          weatherForecastData =
            Obj [(''Temperature_C'', property dataToSend ''Temperature_C''),
                 (''Rainfall_mm'', property dataToSend ''Rainfall_mm'')]
      in JSON_stringify
           (Obj [(''farmInputs'', farmInputsData),
                 (''weatherForecast'', weatherForecastData)]))"

text \<open>
  The synchronous part of \<open>sendDataToBackend\<close>: the request handed to \<open>fetch\<close>. What
  the promise chain does when the request settles is \<open>settle\<close> below.
\<close>

definition sendDataToBackend :: "(string \<times> number option) list \<Rightarrow> request" where
  "sendDataToBackend dataToSend =
     \<lparr>url = ''http://127.0.0.1:5000/get_crop_recommendations'',
      method = ''POST'',
      headers = [(''Content-Type'', ''application/json'')],
      body = requestBody dataToSend\<rparr>"

subsection \<open>Validation and submission\<close>

definition farmInputs :: "state \<Rightarrow> (string \<times> number option) list" where
  "farmInputs s =
     [(''Soil_pH'', soilpH s),
      (''Soil_Moisture'', soilMoisture s),
      (''Temperature_C'', temperatureC s),
      (''Rainfall_mm'', rainfallMm s)]"

text \<open>
  The two predicates on a field name:
  \<open>farmInputs[field] !== null && !isNaN(farmInputs[field])\<close> and
  \<open>farmInputs[field] === null || isNaN(farmInputs[field])\<close>. For a key that is not there
  the lookup is \<open>undefined\<close>, which is not \<open>null\<close> and is not a number.
\<close>

definition filled :: "(string \<times> number option) list \<Rightarrow> string \<Rightarrow> bool" where
  "filled obj field =
     (case map_of obj field of
        None \<Rightarrow> False
      | Some None \<Rightarrow> False
      | Some (Some x) \<Rightarrow> \<not> isNaN x)"

definition missing :: "(string \<times> number option) list \<Rightarrow> string \<Rightarrow> bool" where
  "missing obj field =
     (case map_of obj field of
        None \<Rightarrow> True
      | Some None \<Rightarrow> True
      | Some (Some x) \<Rightarrow> isNaN x)"

text \<open>A field of the form inside a template literal.\<close>

definition shown :: "number option \<Rightarrow> string" where
  "shown v = (case v of None \<Rightarrow> ''null'' | Some x \<Rightarrow> Number_toString x)"

definition userInputSummary :: "state \<Rightarrow> string" where
  "userInputSummary s =
     ''My farm data: pH: '' @ shown (soilpH s) @
     '', Moisture: '' @ shown (soilMoisture s) @
     '', Temperature: '' @ shown (temperatureC s) @ degree_sign @
     ''C, Rainfall: '' @ shown (rainfallMm s) @ ''mm''"

definition missingFields :: "state \<Rightarrow> string" where
  "missingFields s =
     replace_underscores (join '', '' (filter (missing (farmInputs s)) requiredFields))"

text \<open>
  The result is the new state and, when \<open>sendDataToBackend\<close> was called, the request it
  issued.
\<close>

definition handleGetRecommendations :: "state \<Rightarrow> state \<times> request option" where
  "handleGetRecommendations s =
     (let allFieldsFilled = list_all (filled (farmInputs s)) requiredFields
      in if allFieldsFilled then
           (let dataToSend = map (\<lambda>(key, value). (key, value)) (farmInputs s)
            in (s\<lparr>messages := messages s @
                    [\<lparr>sender = User, text = userInputSummary s\<rparr>,
                     \<lparr>sender = Bot, text = ''Fetching recommendations...''\<rparr>]\<rparr>,
                Some (sendDataToBackend dataToSend)))
         else
           (s\<lparr>messages := messages s @
                 [\<lparr>sender = Bot,
                   text = ''Please enter valid values for: '' @ missingFields s @ ''.''\<rparr>]\<rparr>,
            None))"

subsection \<open>The renderer\<close>

text \<open>The condition \<open>data && data.recommendations && data.recommendations.length > 0\<close>.\<close>

definition has_recommendations :: "engine \<Rightarrow> jsval \<Rightarrow> error + bool" where
  "has_recommendations rt data =
     (if \<not> ToBoolean data then Inr False
      else bind_result (located ''data'' (get data ''recommendations'')) (\<lambda>recs.
           if \<not> ToBoolean recs then Inr False
           else bind_result (located ''data.recommendations'' (get recs ''length'')) (\<lambda>len.
                bind_result (located ''data.recommendations.length'' (ToNumber rt len)) (\<lambda>n.
                Inr (greater_than_zero n)))))"

text \<open>
  The body of the \<open>forEach\<close> callback: the four lines appended to \<open>responseText\<close> for the
  record \<open>rec\<close> at \<open>index\<close>. Substitutions are evaluated left to right, each converted to
  a string before the next is read. The rank \<open>index + 1\<close> is an integer below \<open>2 ^ 32\<close>, which
  prints as its decimal digits. The second, third and fourth line begin with the
  indentation of the source, a space and a no-break space. An exception leaves the loop
  at once, so nothing of the text built so far is seen. The calls of \<open>console.log\<close> in the component are left out.
\<close>

definition callback :: "engine \<Rightarrow> string \<Rightarrow> jsval \<Rightarrow> nat \<Rightarrow> error + string" where
  "callback rt responseText rec index =
     bind_result (located ''rec'' (get rec ''Crop'')) (\<lambda>crop.
     bind_result (located ''rec.Crop'' (ToString crop)) (\<lambda>crop_text.
     bind_result (located ''rec'' (get rec ''Estimated_ROI_Percentage'')) (\<lambda>roi.
     bind_result (located ''rec.Estimated_ROI_Percentage'' (call_toFixed roi 1)) (\<lambda>roi_text.
     bind_result (located ''rec'' (get rec ''Predicted_Yield'')) (\<lambda>yield.
     bind_result (located ''rec.Predicted_Yield'' (call_toFixed yield 1)) (\<lambda>yield_text.
     bind_result (located ''rec'' (get rec ''Predicted_Price'')) (\<lambda>price.
     bind_result (located ''rec.Predicted_Price'' (call_toFixed price 2)) (\<lambda>price_text.
     bind_result (located ''rec'' (get rec ''Estimated_Profit'')) (\<lambda>profit.
     bind_result (located ''rec.Estimated_Profit'' (call_toFixed profit 2)) (\<lambda>profit_text.
     bind_result (located ''rec'' (get rec ''Pest_Risk_Score'')) (\<lambda>score.
     bind_result (located ''rec.Pest_Risk_Score'' (ToNumber rt score)) (\<lambda>score_number.
     bind_result (located ''rec'' (get rec ''Explanation'')) (\<lambda>explanation.
     bind_result (located ''rec.Explanation'' (ToString explanation)) (\<lambda>explanation_text.
     Inr (responseText @
          digits (int index + 1) @ ''. '' @ crop_text @ '' - '' @ roi_text @ ''% ROI\<newline>'' @
          indentation @ ''Yield: '' @ yield_text @ '' tons | Price: $'' @ price_text @
          '' | Profit: $'' @ profit_text @ ''\<newline>'' @
          indentation @ ''Pest Risk: '' @ toFixed 1 (multiply score_number (decimal 100 0)) @
          ''%\<newline>'' @
          indentation @ ''Summary: '' @ explanation_text @ ''\<newline>\<newline>'')))))))))))))))"

fun forEach :: "engine \<Rightarrow> jsval list \<Rightarrow> nat \<Rightarrow> string \<Rightarrow> error + string" where
  "forEach rt [] index responseText = Inr responseText"
| "forEach rt (rec # recs) index responseText =
     bind_result (callback rt responseText rec index) (\<lambda>responseText'.
     forEach rt recs (Suc index) responseText')"

text \<open>The method call \<open>recs.forEach(...)\<close>: only an array has the method.\<close>

definition call_forEach :: "engine \<Rightarrow> jsval \<Rightarrow> string \<Rightarrow> error + string" where
  "call_forEach rt recs responseText =
     (case recs of
        Arr xs \<Rightarrow> forEach rt xs 0 responseText
      | Undefined \<Rightarrow> Inl (TypeError ''data.recommendations'' (ReadOfNullish Undefined ''forEach''))
      | Null \<Rightarrow> Inl (TypeError ''data.recommendations'' (ReadOfNullish Null ''forEach''))
      | _ \<Rightarrow> Inl (TypeError ''data.recommendations'' (NotAFunction recs ''forEach'')))"

definition displayRecommendations :: "engine \<Rightarrow> jsval \<Rightarrow> state \<Rightarrow> error + state" where
  "displayRecommendations rt data s =
     bind_result (has_recommendations rt data) (\<lambda>nonempty.
     if nonempty then
       bind_result (located ''data'' (get data ''recommendations'')) (\<lambda>recs.
       bind_result (call_forEach rt recs ''Here are the top recommendations:\<newline>'') (\<lambda>responseText.
       Inr (s\<lparr>messages := messages s @ [\<lparr>sender = Bot, text = responseText\<rparr>]\<rparr>)))
     else
       Inr (s\<lparr>messages := messages s @
              [\<lparr>sender = Bot, text = ''No recommendations found for the provided data.''\<rparr>]\<rparr>))"

subsection \<open>The promise chain\<close>

text \<open>
  A request settles in one of two ways: \<open>fetch\<close> rejects, or it delivers a response with
  a status and a body; \<open>json\<close> is what \<open>response.json()\<close> resolves or rejects with.
\<close>

record response =
  status :: nat
  json :: "error + jsval"

datatype outcome = Failed error | Responded response

definition ok :: "response \<Rightarrow> bool" where
  "ok r = (200 \<le> status r \<and> status r \<le> 299)"

text \<open>
  The first \<open>then\<close>, the second \<open>then\<close> and the \<open>catch\<close>. The status is a small
  integer and prints as its decimal digits.
\<close>

definition on_response :: "response \<Rightarrow> error + jsval" where
  "on_response r =
     (if \<not> ok r then Inl (Error (''HTTP error! Status: '' @ digits (int (status r))))
      else json r)"

definition on_data :: "engine \<Rightarrow> jsval \<Rightarrow> state \<Rightarrow> error + state" where
  "on_data rt data s =
     bind_result (displayRecommendations rt data s) (\<lambda>s'.
     Inr (s'\<lparr>soilpH := None, soilMoisture := None, temperatureC := None, rainfallMm := None\<rparr>))"

definition on_error :: "engine \<Rightarrow> error \<Rightarrow> state \<Rightarrow> state" where
  "on_error rt err s =
     s\<lparr>messages := messages s @
         [\<lparr>sender = Bot,
           text = ''Error fetching recommendations: '' @ message_of rt err @ ''. Please try again.''\<rparr>]\<rparr>"

definition chain :: "engine \<Rightarrow> outcome \<Rightarrow> state \<Rightarrow> error + state" where
  "chain rt out s =
     (case out of
        Failed err \<Rightarrow> Inl err
      | Responded r \<Rightarrow> bind_result (on_response r) (\<lambda>data. on_data rt data s))"

definition settle :: "engine \<Rightarrow> outcome \<Rightarrow> state \<Rightarrow> state" where
  "settle rt out s =
     (case chain rt out s of
        Inl err \<Rightarrow> on_error rt err s
      | Inr s' \<Rightarrow> s')"

subsection \<open>What is displayed, and the widget as a transition system\<close>

text \<open>\<open>msg.text.split('\n')\<close>, and the bubbles of the chat container in display order.\<close>

fun split_lines :: "string \<Rightarrow> string list" where
  "split_lines [] = [[]]"
| "split_lines (c # cs) =
     (if c = CHR 0x0A then [] # split_lines cs
      else (case split_lines cs of l # ls \<Rightarrow> (c # l) # ls | [] \<Rightarrow> [[c]]))"

definition chat_container :: "state \<Rightarrow> (sender \<times> string list) list" where
  "chat_container s = map (\<lambda>msg. (sender msg, split_lines (text msg))) (messages s)"

text \<open>
  The widget together with the requests that are in flight. The icon can always be
  clicked; the controls and the button are rendered only while the panel is visible;
  any request in flight may settle next, in any order.
\<close>

record app =
  widget :: state
  in_flight :: "request list"

datatype event =
    Click_icon
  | Change_soil_ph string
  | Change_soil_moisture string
  | Change_temperature string
  | Change_rainfall string
  | Click_send
  | Settle nat outcome

definition start :: app where
  "start = \<lparr>widget = initial, in_flight = []\<rparr>"

fun step :: "engine \<Rightarrow> event \<Rightarrow> app \<Rightarrow> app option" where
  "step rt Click_icon a = Some (a\<lparr>widget := toggleChatbot (widget a)\<rparr>)"
| "step rt (Change_soil_ph v) a =
     (if isVisible (widget a) then Some (a\<lparr>widget := onChange_soil_ph rt v (widget a)\<rparr>) else None)"
| "step rt (Change_soil_moisture v) a =
     (if isVisible (widget a) then Some (a\<lparr>widget := onChange_soil_moisture rt v (widget a)\<rparr>) else None)"
| "step rt (Change_temperature v) a =
     (if isVisible (widget a) then Some (a\<lparr>widget := onChange_temperature rt v (widget a)\<rparr>) else None)"
| "step rt (Change_rainfall v) a =
     (if isVisible (widget a) then Some (a\<lparr>widget := onChange_rainfall rt v (widget a)\<rparr>) else None)"
| "step rt Click_send a =
     (if isVisible (widget a) then
        (case handleGetRecommendations (widget a) of
           (s', sent) \<Rightarrow>
             Some \<lparr>widget = s',
                   in_flight = in_flight a @ (case sent of None \<Rightarrow> [] | Some r \<Rightarrow> [r])\<rparr>)
      else None)"
| "step rt (Settle i out) a =
     (if i < length (in_flight a) then
        Some \<lparr>widget = settle rt out (widget a),
              in_flight = take i (in_flight a) @ drop (Suc i) (in_flight a)\<rparr>
      else None)"

fun run :: "engine \<Rightarrow> event list \<Rightarrow> app \<Rightarrow> app option" where
  "run rt [] a = Some a"
| "run rt (ev # evs) a =
     (case step rt ev a of
        None \<Rightarrow> None
      | Some a' \<Rightarrow> run rt evs a')"

subsection \<open>Concrete inputs\<close>

text \<open>
  An engine for the examples below: it reads the four literals of the examples and takes
  every other string for \<open>NaN\<close>.
\<close>

definition sample_engine :: engine where
  "sample_engine =
     \<lparr>parseFloat = (\<lambda>v.
        case map_of [(''6.5'', decimal 65 1), (''40'', decimal 40 0),
                     (''25'', decimal 25 0), (''100'', decimal 100 0)] v of
          Some x \<Rightarrow> x
        | None \<Rightarrow> NaN),
      StringToNumber = (\<lambda>v. NaN),
      TypeError_message = (\<lambda>site c. ''Cannot read properties of undefined'')\<rparr>"

text \<open>The form filled with pH 6.5, moisture 40, temperature 25 and rainfall 100.\<close>

definition filled_form :: state where
  "filled_form =
     initial\<lparr>isVisible := True,
             soilpH := Some (decimal 65 1),
             soilMoisture := Some (decimal 40 0),
             temperatureC := Some (decimal 25 0),
             rainfallMm := Some (decimal 100 0)\<rparr>"

subsection \<open>Notions used to state the properties\<close>

text \<open>
  A field that the validation rejects: it is \<open>null\<close> or \<open>NaN\<close>. The names of the
  rejected fields, written with spaces, in the order of \<open>requiredFields\<close>.
\<close>

definition invalid_field :: "number option \<Rightarrow> bool" where
  "invalid_field v = (case v of None \<Rightarrow> True | Some x \<Rightarrow> isNaN x)"

definition invalid_names :: "state \<Rightarrow> string list" where
  "invalid_names s =
     map snd (filter (\<lambda>(v, name). invalid_field v)
       [(soilpH s, ''Soil pH''), (soilMoisture s, ''Soil Moisture''),
        (temperatureC s, ''Temperature C''), (rainfallMm s, ''Rainfall mm'')])"

text \<open>The filled form with an infinite soil moisture.\<close>

definition infinite_form :: state where
  "infinite_form = filled_form\<lparr>soilMoisture := Some PosInfinity\<rparr>"

text \<open>
  Two payloads: one whose only record has no fields, and one with no records.
\<close>

definition malformed_payload :: jsval where
  "malformed_payload = Obj [(''recommendations'', Arr [Obj []])]"

definition empty_payload :: jsval where
  "empty_payload = Obj [(''recommendations'', Arr [])]"

text \<open>
  A recommendation record as the specification describes it, the payload object that
  carries it, and the text the specification asks for: the line of the rank, crop and
  return, the line of yield, price and profit, the line of the pest risk, and the block
  of a record made of these lines and the summary.
\<close>

record recommendation =
  Crop :: string
  Estimated_ROI_Percentage :: number
  Predicted_Yield :: number
  Predicted_Price :: number
  Estimated_Profit :: number
  Pest_Risk_Score :: number
  Explanation :: string

definition as_payload :: "recommendation \<Rightarrow> jsval" where
  "as_payload r =
     Obj [(''Crop'', Str (Crop r)),
          (''Estimated_ROI_Percentage'', Num (Estimated_ROI_Percentage r)),
          (''Predicted_Yield'', Num (Predicted_Yield r)),
          (''Predicted_Price'', Num (Predicted_Price r)),
          (''Estimated_Profit'', Num (Estimated_Profit r)),
          (''Pest_Risk_Score'', Num (Pest_Risk_Score r)),
          (''Explanation'', Str (Explanation r))]"






text \<open>The record of the example.\<close>

definition maize :: recommendation where
  "maize =
     \<lparr>Crop = ''Maize'',
      Estimated_ROI_Percentage = decimal 1234 2,
      Predicted_Yield = decimal 5678 3,
      Predicted_Price = decimal 2005 1,
      Estimated_Profit = decimal 150256 3,
      Pest_Risk_Score = decimal 2 1,
      Explanation = ''stable''\<rparr>"

text \<open>
  The records the renderer can format: the four fields it formats with \<open>toFixed\<close> hold
  numbers, and the three it converts hold values that have a conversion (a missing one
  does: it prints as \<open>undefined\<close>, or as \<open>NaN\<close> for the score). The payloads it accepts:
  anything whose \<open>recommendations\<close> is missing, \<open>null\<close>, a number, a boolean, an empty
  string, or an array of such records.
\<close>

definition field :: "jsval \<Rightarrow> string \<Rightarrow> jsval" where
  "field rec name = (case get rec name of Inr v \<Rightarrow> v | Inl err \<Rightarrow> Undefined)"

definition is_number :: "jsval \<Rightarrow> bool" where
  "is_number v = (case v of Num x \<Rightarrow> True | _ \<Rightarrow> False)"

definition printable :: "jsval \<Rightarrow> bool" where
  "printable v = (case ToString v of Inr t \<Rightarrow> True | Inl err \<Rightarrow> False)"

definition record_accepted :: "jsval \<Rightarrow> bool" where
  "record_accepted rec =
     (rec \<noteq> Undefined \<and> rec \<noteq> Null \<and>
      printable (field rec ''Crop'') \<and>
      is_number (field rec ''Estimated_ROI_Percentage'') \<and>
      is_number (field rec ''Predicted_Yield'') \<and>
      is_number (field rec ''Predicted_Price'') \<and>
      is_number (field rec ''Estimated_Profit'') \<and>
      printable (field rec ''Pest_Risk_Score'') \<and>
      printable (field rec ''Explanation''))"

definition payload_accepted :: "jsval \<Rightarrow> bool" where
  "payload_accepted data =
     (case data of
        Obj ps \<Rightarrow>
          (case map_of ps ''recommendations'' of
             None \<Rightarrow> True
           | Some (Arr xs) \<Rightarrow> list_all record_accepted xs
           | Some (Str t) \<Rightarrow> t = []
           | Some (Obj qs) \<Rightarrow> False
           | Some v \<Rightarrow> True)
      | _ \<Rightarrow> True)"

section \<open>Properties\<close>

subsection \<open>Auxiliary facts\<close>

lemma bind_result_Inr: "bind_result r f = Inr y \<Longrightarrow> \<exists>x. r = Inr x \<and> f x = Inr y"
  by (cases r) (simp_all add: bind_result_def)

lemma located_simps [simp]:
  "located site (Inr v) = Inr v"
  "located site (Inl c) = Inl (TypeError site c)"
  by (simp_all add: located_def)

lemma located_Inr: "located site r = Inr v \<Longrightarrow> r = Inr v"
  by (cases r) simp_all

lemma display_appends_one:
  "displayRecommendations rt data s = Inr s' \<Longrightarrow> \<exists>m. s' = s\<lparr>messages := messages s @ [m]\<rparr>"
  unfolding displayRecommendations_def
  by (auto dest!: bind_result_Inr split: if_splits)

lemma on_data_appends_one:
  "on_data rt data s = Inr s' \<Longrightarrow> \<exists>m. messages s' = messages s @ [m]"
  unfolding on_data_def
  by (auto dest!: bind_result_Inr display_appends_one)

lemma settle_appends_one: "\<exists>m. messages (settle rt out s) = messages s @ [m]"
proof (cases "chain rt out s")
  case (Inl err)
  then show ?thesis by (simp add: settle_def on_error_def)
next
  case (Inr s')
  then have "\<exists>m. messages s' = messages s @ [m]"
    by (cases out) (auto simp add: chain_def dest!: bind_result_Inr on_data_appends_one)
  with Inr show ?thesis by (simp add: settle_def)
qed

lemma handle_extends:
  "prefix (messages s) (messages (fst (handleGetRecommendations s)))"
  by (simp add: handleGetRecommendations_def Let_def)

lemma step_extends:
  "step rt ev a = Some a' \<Longrightarrow> prefix (messages (widget a)) (messages (widget a'))"
proof (cases ev)
  case (Settle i out)
  assume "step rt ev a = Some a'"
  with Settle have "widget a' = settle rt out (widget a)"
    by (auto split: if_splits)
  with settle_appends_one [of rt out "widget a"] show ?thesis by auto
next
  case Click_send
  assume "step rt ev a = Some a'"
  with Click_send have "widget a' = fst (handleGetRecommendations (widget a))"
    by (auto split: if_splits prod.splits)
  with handle_extends show ?thesis by simp
qed (auto simp add: toggleChatbot_def onChange_soil_ph_def onChange_soil_moisture_def
      onChange_temperature_def onChange_rainfall_def split: if_splits)

lemma run_extends:
  "run rt evs a = Some a' \<Longrightarrow> prefix (messages (widget a)) (messages (widget a'))"
proof (induction evs arbitrary: a)
  case Nil
  then show ?case by simp
next
  case (Cons ev evs)
  then obtain b where b: "step rt ev a = Some b" and r: "run rt evs b = Some a'"
    by (auto split: option.splits)
  from step_extends [OF b] Cons.IH [OF r] show ?case by (rule prefix_order.trans)
qed

lemma toggle_twice: "toggleChatbot (toggleChatbot s) = s"
  by (simp add: toggleChatbot_def)

lemma toggle_funpow_messages: "messages ((toggleChatbot ^^ n) s) = messages s"
  by (induction n) (simp_all add: toggleChatbot_def)

lemma toggle_funpow_inputs: "inputs ((toggleChatbot ^^ n) s) = inputs s"
  by (induction n) (simp_all add: toggleChatbot_def inputs_def)

subsection \<open>Visibility\<close>

text \<open>
  C9. The visibility flag is false at the start; the toggle flips it, so toggling twice
  gives back the state as it was; and toggling any number of times changes neither the
  transcript nor any of the four input fields.
\<close>

theorem toggle_is_an_involution:
  "isVisible initial = False \<and>
   isVisible (toggleChatbot s) = (\<not> isVisible s) \<and>
   toggleChatbot (toggleChatbot s) = s \<and>
   messages ((toggleChatbot ^^ n) s) = messages s \<and>
   inputs ((toggleChatbot ^^ n) s) = inputs s"
  by (simp add: toggle_twice toggle_funpow_messages toggle_funpow_inputs)
     (simp add: initial_def toggleChatbot_def)

subsection \<open>The transcript\<close>

text \<open>
  C8. The transcript is append-only. Each operation of the widget (the toggle, the
  four input edits, the submission on either branch, the settling of a request with any
  outcome, the renderer when it returns) leaves the old transcript as a prefix of the new
  one; so does every step and every run of the widget, where the transcript therefore
  never gets shorter. The bubbles are displayed in the order of the transcript.
\<close>

theorem transcript_is_append_only:
  "prefix (messages s) (messages (toggleChatbot s)) \<and>
   prefix (messages s) (messages (onChange_soil_ph rt v s)) \<and>
   prefix (messages s) (messages (onChange_soil_moisture rt v s)) \<and>
   prefix (messages s) (messages (onChange_temperature rt v s)) \<and>
   prefix (messages s) (messages (onChange_rainfall rt v s)) \<and>
   prefix (messages s) (messages (fst (handleGetRecommendations s))) \<and>
   prefix (messages s) (messages (settle rt out s)) \<and>
   (displayRecommendations rt data s = Inr s' \<longrightarrow> prefix (messages s) (messages s')) \<and>
   (step rt ev a = Some a' \<longrightarrow> prefix (messages (widget a)) (messages (widget a'))) \<and>
   (run rt evs a = Some a'' \<longrightarrow>
      prefix (messages (widget a)) (messages (widget a'')) \<and>
      length (messages (widget a)) \<le> length (messages (widget a'')) \<and>
      prefix (chat_container (widget a)) (chat_container (widget a''))) \<and>
   map fst (chat_container s) = map sender (messages s)"
proof -
  have edits:
    "messages (toggleChatbot s) = messages s"
    "messages (onChange_soil_ph rt v s) = messages s"
    "messages (onChange_soil_moisture rt v s) = messages s"
    "messages (onChange_temperature rt v s) = messages s"
    "messages (onChange_rainfall rt v s) = messages s"
    by (simp_all add: toggleChatbot_def onChange_soil_ph_def onChange_soil_moisture_def
        onChange_temperature_def onChange_rainfall_def)
  have settled: "prefix (messages s) (messages (settle rt out s))"
    using settle_appends_one [of rt out s] by auto
  have rendered: "displayRecommendations rt data s = Inr s' \<longrightarrow> prefix (messages s) (messages s')"
    by (auto dest!: display_appends_one)
  have ran: "run rt evs a = Some a'' \<longrightarrow>
      prefix (messages (widget a)) (messages (widget a'')) \<and>
      length (messages (widget a)) \<le> length (messages (widget a'')) \<and>
      prefix (chat_container (widget a)) (chat_container (widget a''))"
  proof
    assume "run rt evs a = Some a''"
    then have p: "prefix (messages (widget a)) (messages (widget a''))"
      by (rule run_extends)
    then show "prefix (messages (widget a)) (messages (widget a'')) \<and>
      length (messages (widget a)) \<le> length (messages (widget a'')) \<and>
      prefix (chat_container (widget a)) (chat_container (widget a''))"
      by (simp add: prefix_length_le chat_container_def map_mono_prefix)
  qed
  have shown: "map fst (chat_container s) = map sender (messages s)"
    by (simp add: chat_container_def comp_def)
  from edits handle_extends [of s] settled rendered ran shown step_extends [of rt ev a a']
  show ?thesis by simp
qed

theorem transcript_is_append_only_witness:
  "displayRecommendations sample_engine Null initial =
     Inr (initial\<lparr>messages := messages initial @
            [\<lparr>sender = Bot, text = ''No recommendations found for the provided data.''\<rparr>]\<rparr>) \<and>
   prefix (messages initial)
     (messages (initial\<lparr>messages := messages initial @
            [\<lparr>sender = Bot, text = ''No recommendations found for the provided data.''\<rparr>]\<rparr>)) \<and>
   step sample_engine Click_icon start = Some (start\<lparr>widget := toggleChatbot initial\<rparr>) \<and>
   prefix (messages (widget start)) (messages (widget (start\<lparr>widget := toggleChatbot initial\<rparr>))) \<and>
   run sample_engine [Click_icon, Click_send] start =
     Some \<lparr>widget = fst (handleGetRecommendations (toggleChatbot initial)), in_flight = []\<rparr> \<and>
   length (messages (widget start)) \<le>
     length (messages (widget
       \<lparr>widget = fst (handleGetRecommendations (toggleChatbot initial)), in_flight = []\<rparr>))"
proof -
  have d: "displayRecommendations sample_engine Null initial =
     Inr (initial\<lparr>messages := messages initial @
            [\<lparr>sender = Bot, text = ''No recommendations found for the provided data.''\<rparr>]\<rparr>)"
    by (simp add: displayRecommendations_def has_recommendations_def bind_result_def)
  have st: "step sample_engine Click_icon start = Some (start\<lparr>widget := toggleChatbot initial\<rparr>)"
    by (simp add: start_def)
  have r: "run sample_engine [Click_icon, Click_send] start =
     Some \<lparr>widget = fst (handleGetRecommendations (toggleChatbot initial)), in_flight = []\<rparr>"
    by (simp add: start_def toggleChatbot_def initial_def handleGetRecommendations_def
        farmInputs_def requiredFields_def filled_def Let_def)
  note t = transcript_is_append_only
         [where s = initial and rt = sample_engine and data = Null and ev = Click_icon
            and a = start and evs = "[Click_icon, Click_send]"
            and s' = "initial\<lparr>messages := messages initial @
              [\<lparr>sender = Bot, text = ''No recommendations found for the provided data.''\<rparr>]\<rparr>"
            and a' = "start\<lparr>widget := toggleChatbot initial\<rparr>"
            and a'' = "\<lparr>widget = fst (handleGetRecommendations (toggleChatbot initial)), in_flight = []\<rparr>"]
  from t d st r show ?thesis by blast
qed

text \<open>
  C10. The transcript starts as one message, the welcome of the bot; in every state the
  widget reaches, the transcript is not empty and still begins with that message, whose
  sender is the bot.
\<close>

theorem transcript_begins_with_welcome:
  "messages initial =
     [\<lparr>sender = Bot,
       text = ''Welcome to the Farm AI Chatbot! Please enter the following information to get crop recommendations:''\<rparr>] \<and>
   (run rt evs start = Some a \<longrightarrow>
      messages (widget a) \<noteq> [] \<and>
      sender (hd (messages (widget a))) = Bot \<and>
      hd (messages (widget a)) = hd (messages initial))"
proof -
  have "messages (widget a) \<noteq> [] \<and> sender (hd (messages (widget a))) = Bot \<and>
      hd (messages (widget a)) = hd (messages initial)"
    if "run rt evs start = Some a"
  proof -
    from run_extends [OF that] obtain ms where "messages (widget a) = messages initial @ ms"
      by (auto simp add: start_def prefix_def)
    then show ?thesis by (simp add: initial_def)
  qed
  then show ?thesis by (simp add: initial_def)
qed

theorem transcript_begins_with_welcome_witness:
  "run sample_engine [Click_icon, Click_send] start =
     Some \<lparr>widget = fst (handleGetRecommendations (toggleChatbot initial)), in_flight = []\<rparr> \<and>
   messages (widget
     \<lparr>widget = fst (handleGetRecommendations (toggleChatbot initial)), in_flight = []\<rparr>) \<noteq> [] \<and>
   sender (hd (messages (widget
     \<lparr>widget = fst (handleGetRecommendations (toggleChatbot initial)), in_flight = []\<rparr>))) = Bot"
proof -
  have r: "run sample_engine [Click_icon, Click_send] start =
     Some \<lparr>widget = fst (handleGetRecommendations (toggleChatbot initial)), in_flight = []\<rparr>"
    by (simp add: start_def toggleChatbot_def initial_def handleGetRecommendations_def
        farmInputs_def requiredFields_def filled_def Let_def)
  note t = transcript_begins_with_welcome
         [where rt = sample_engine and evs = "[Click_icon, Click_send]"
            and a = "\<lparr>widget = fst (handleGetRecommendations (toggleChatbot initial)), in_flight = []\<rparr>"]
  from t r show ?thesis by blast
qed

subsection \<open>The request body\<close>

lemma quoted_keys:
  \<open>quote ''farmInputs'' = ''"farmInputs"''\<close>
  \<open>quote ''weatherForecast'' = ''"weatherForecast"''\<close>
  \<open>quote ''Soil_pH'' = ''"Soil_pH"''\<close>
  \<open>quote ''Soil_Moisture'' = ''"Soil_Moisture"''\<close>
  \<open>quote ''Temperature_C'' = ''"Temperature_C"''\<close>
  \<open>quote ''Rainfall_mm'' = ''"Rainfall_mm"''\<close>
  by code_simp+

lemma printed_inputs:
  "Number_toString (decimal 65 1) = ''6.5''"
  "Number_toString (decimal 40 0) = ''40''"
  "Number_toString (decimal 25 0) = ''25''"
  "Number_toString (decimal 100 0) = ''100''"
  by code_simp+

lemma finite_inputs:
  "isFinite (decimal 65 1)" "isFinite (decimal 40 0)" "isFinite (decimal 25 0)" "isFinite (decimal 100 0)"
  by code_simp+

lemma requestBody_text:
  \<open>requestBody [(''Soil_pH'', Some a), (''Soil_Moisture'', Some b),
                (''Temperature_C'', Some c), (''Rainfall_mm'', Some d)] =
     Some (''{"farmInputs":{"Soil_pH":'' @ JSON_number a @
           '',"Soil_Moisture":'' @ JSON_number b @
           ''},"weatherForecast":{"Temperature_C":'' @ JSON_number c @
           '',"Rainfall_mm":'' @ JSON_number d @ ''}}'')\<close>
  by (simp add: requestBody_def property_def quoted_keys)

text \<open>
  C1. For every four input values the request body is the serialisation of an object
  with the two groups \<open>farmInputs\<close> (holding \<open>Soil_pH\<close> and \<open>Soil_Moisture\<close>) and
  \<open>weatherForecast\<close> (holding \<open>Temperature_C\<close> and \<open>Rainfall_mm\<close>), in this order and
  with each value printed as JSON prints a number; it is the body of the request that is
  sent. For pH 6.5, moisture 40, temperature 25 and rainfall 100 it is the text of the
  specification.
\<close>

theorem request_body_groups_the_inputs:
  \<open>requestBody [(''Soil_pH'', Some a), (''Soil_Moisture'', Some b),
                (''Temperature_C'', Some c), (''Rainfall_mm'', Some d)] =
     JSON_stringify
       (Obj [(''farmInputs'', Obj [(''Soil_pH'', Num a), (''Soil_Moisture'', Num b)]),
             (''weatherForecast'', Obj [(''Temperature_C'', Num c), (''Rainfall_mm'', Num d)])]) \<and>
   requestBody [(''Soil_pH'', Some a), (''Soil_Moisture'', Some b),
                (''Temperature_C'', Some c), (''Rainfall_mm'', Some d)] =
     Some (''{"farmInputs":{"Soil_pH":'' @ JSON_number a @
           '',"Soil_Moisture":'' @ JSON_number b @
           ''},"weatherForecast":{"Temperature_C":'' @ JSON_number c @
           '',"Rainfall_mm":'' @ JSON_number d @ ''}}'') \<and>
   body (sendDataToBackend
           [(''Soil_pH'', Some a), (''Soil_Moisture'', Some b),
            (''Temperature_C'', Some c), (''Rainfall_mm'', Some d)]) =
     requestBody [(''Soil_pH'', Some a), (''Soil_Moisture'', Some b),
                  (''Temperature_C'', Some c), (''Rainfall_mm'', Some d)] \<and>
   requestBody [(''Soil_pH'', Some (decimal 65 1)), (''Soil_Moisture'', Some (decimal 40 0)),
                (''Temperature_C'', Some (decimal 25 0)), (''Rainfall_mm'', Some (decimal 100 0))] =
     Some ''{"farmInputs":{"Soil_pH":6.5,"Soil_Moisture":40},"weatherForecast":{"Temperature_C":25,"Rainfall_mm":100}}''\<close>
proof -
  have grouped:
    "requestBody [(''Soil_pH'', Some a), (''Soil_Moisture'', Some b),
                  (''Temperature_C'', Some c), (''Rainfall_mm'', Some d)] =
     JSON_stringify
       (Obj [(''farmInputs'', Obj [(''Soil_pH'', Num a), (''Soil_Moisture'', Num b)]),
             (''weatherForecast'', Obj [(''Temperature_C'', Num c), (''Rainfall_mm'', Num d)])])"
    by (simp add: requestBody_def property_def)
  have sent: "body (sendDataToBackend
           [(''Soil_pH'', Some a), (''Soil_Moisture'', Some b),
            (''Temperature_C'', Some c), (''Rainfall_mm'', Some d)]) =
     requestBody [(''Soil_pH'', Some a), (''Soil_Moisture'', Some b),
                  (''Temperature_C'', Some c), (''Rainfall_mm'', Some d)]"
    by (simp add: sendDataToBackend_def)
  have example:
    \<open>requestBody [(''Soil_pH'', Some (decimal 65 1)), (''Soil_Moisture'', Some (decimal 40 0)),
                (''Temperature_C'', Some (decimal 25 0)), (''Rainfall_mm'', Some (decimal 100 0))] =
     Some ''{"farmInputs":{"Soil_pH":6.5,"Soil_Moisture":40},"weatherForecast":{"Temperature_C":25,"Rainfall_mm":100}}''\<close>
    by (simp only: requestBody_text JSON_number_def finite_inputs printed_inputs if_True) simp
  from grouped requestBody_text [of a b c d] sent example show ?thesis by blast
qed

subsection \<open>Validation and submission\<close>

lemma missing_fields:
  "missing (farmInputs s) ''Soil_pH'' = invalid_field (soilpH s)"
  "missing (farmInputs s) ''Soil_Moisture'' = invalid_field (soilMoisture s)"
  "missing (farmInputs s) ''Temperature_C'' = invalid_field (temperatureC s)"
  "missing (farmInputs s) ''Rainfall_mm'' = invalid_field (rainfallMm s)"
  by (simp_all add: missing_def farmInputs_def invalid_field_def split: option.splits)

lemma filled_fields:
  "filled (farmInputs s) ''Soil_pH'' = (\<not> invalid_field (soilpH s))"
  "filled (farmInputs s) ''Soil_Moisture'' = (\<not> invalid_field (soilMoisture s))"
  "filled (farmInputs s) ''Temperature_C'' = (\<not> invalid_field (temperatureC s))"
  "filled (farmInputs s) ''Rainfall_mm'' = (\<not> invalid_field (rainfallMm s))"
  by (simp_all add: filled_def farmInputs_def invalid_field_def split: option.splits)

lemma allFieldsFilled:
  "list_all (filled (farmInputs s)) requiredFields =
     (\<not> invalid_field (soilpH s) \<and> \<not> invalid_field (soilMoisture s) \<and>
      \<not> invalid_field (temperatureC s) \<and> \<not> invalid_field (rainfallMm s))"
  by (simp add: requiredFields_def filled_fields)

lemma missingFields_names: "missingFields s = join '', '' (invalid_names s)"
  unfolding missingFields_def requiredFields_def invalid_names_def
  by (cases "invalid_field (soilpH s)"; cases "invalid_field (soilMoisture s)";
      cases "invalid_field (temperatureC s)"; cases "invalid_field (rainfallMm s)")
     (simp_all add: missing_fields replace_underscores_def)

lemma submission_of_numbers:
  assumes "soilpH s = Some a" "soilMoisture s = Some b" "temperatureC s = Some c" "rainfallMm s = Some d"
    and "\<not> isNaN a" "\<not> isNaN b" "\<not> isNaN c" "\<not> isNaN d"
  shows "handleGetRecommendations s =
     (s\<lparr>messages := messages s @
          [\<lparr>sender = User,
            text = ''My farm data: pH: '' @ Number_toString a @
                   '', Moisture: '' @ Number_toString b @
                   '', Temperature: '' @ Number_toString c @ degree_sign @
                   ''C, Rainfall: '' @ Number_toString d @ ''mm''\<rparr>,
           \<lparr>sender = Bot, text = ''Fetching recommendations...''\<rparr>]\<rparr>,
      Some (sendDataToBackend
              [(''Soil_pH'', Some a), (''Soil_Moisture'', Some b),
               (''Temperature_C'', Some c), (''Rainfall_mm'', Some d)]))"
proof -
  from assms have "list_all (filled (farmInputs s)) requiredFields"
    by (simp add: allFieldsFilled invalid_field_def)
  with assms(1-4) show ?thesis
    by (simp add: handleGetRecommendations_def userInputSummary_def shown_def farmInputs_def)
qed

lemma finite_not_NaN: "isFinite x \<Longrightarrow> \<not> isNaN x"
  by (cases x) (simp_all add: isFinite_def isNaN_def)

text \<open>
  C3. When all four fields hold finite numbers, the submission appends exactly two
  messages, the summary of the user with the four values printed into it and then the
  placeholder of the bot, and calls \<open>sendDataToBackend\<close> with the four values.
\<close>

theorem valid_submission_sends_request:
  assumes "soilpH s = Some a" "soilMoisture s = Some b" "temperatureC s = Some c" "rainfallMm s = Some d"
    and "isFinite a" "isFinite b" "isFinite c" "isFinite d"
  shows "handleGetRecommendations s =
     (s\<lparr>messages := messages s @
          [\<lparr>sender = User,
            text = ''My farm data: pH: '' @ Number_toString a @
                   '', Moisture: '' @ Number_toString b @
                   '', Temperature: '' @ Number_toString c @ degree_sign @
                   ''C, Rainfall: '' @ Number_toString d @ ''mm''\<rparr>,
           \<lparr>sender = Bot, text = ''Fetching recommendations...''\<rparr>]\<rparr>,
      Some (sendDataToBackend
              [(''Soil_pH'', Some a), (''Soil_Moisture'', Some b),
               (''Temperature_C'', Some c), (''Rainfall_mm'', Some d)])) \<and>
     length (messages (fst (handleGetRecommendations s))) = length (messages s) + 2"
proof -
  from assms have "\<not> isNaN a" "\<not> isNaN b" "\<not> isNaN c" "\<not> isNaN d"
    by (simp_all add: finite_not_NaN)
  from submission_of_numbers [OF assms(1-4) this] show ?thesis by simp
qed

lemma filled_form_fields:
  "soilpH filled_form = Some (decimal 65 1)" "soilMoisture filled_form = Some (decimal 40 0)"
  "temperatureC filled_form = Some (decimal 25 0)" "rainfallMm filled_form = Some (decimal 100 0)"
  by (simp_all add: filled_form_def)

theorem valid_submission_sends_request_witness:
  "soilpH filled_form = Some (decimal 65 1) \<and> soilMoisture filled_form = Some (decimal 40 0) \<and>
   temperatureC filled_form = Some (decimal 25 0) \<and> rainfallMm filled_form = Some (decimal 100 0) \<and>
   isFinite (decimal 65 1) \<and> isFinite (decimal 40 0) \<and> isFinite (decimal 25 0) \<and>
   isFinite (decimal 100 0) \<and>
   handleGetRecommendations filled_form =
     (filled_form\<lparr>messages := messages filled_form @
          [\<lparr>sender = User,
            text = ''My farm data: pH: 6.5, Moisture: 40, Temperature: 25'' @ degree_sign @
                   ''C, Rainfall: 100mm''\<rparr>,
           \<lparr>sender = Bot, text = ''Fetching recommendations...''\<rparr>]\<rparr>,
      Some (sendDataToBackend
              [(''Soil_pH'', Some (decimal 65 1)), (''Soil_Moisture'', Some (decimal 40 0)),
               (''Temperature_C'', Some (decimal 25 0)), (''Rainfall_mm'', Some (decimal 100 0))]))"
  using valid_submission_sends_request [OF filled_form_fields finite_inputs]
  by (simp add: filled_form_fields finite_inputs printed_inputs)

text \<open>
  C2, as stated, fails for a field that holds an infinity: it is not a finite number,
  yet the form is submitted, with two new messages and a request.
\<close>

theorem infinite_value_is_submitted:
  "soilMoisture infinite_form = Some PosInfinity \<and> \<not> isFinite PosInfinity \<and>
   handleGetRecommendations infinite_form =
     (infinite_form\<lparr>messages := messages infinite_form @
          [\<lparr>sender = User,
            text = ''My farm data: pH: 6.5, Moisture: Infinity, Temperature: 25'' @ degree_sign @
                   ''C, Rainfall: 100mm''\<rparr>,
           \<lparr>sender = Bot, text = ''Fetching recommendations...''\<rparr>]\<rparr>,
      Some (sendDataToBackend
              [(''Soil_pH'', Some (decimal 65 1)), (''Soil_Moisture'', Some PosInfinity),
               (''Temperature_C'', Some (decimal 25 0)), (''Rainfall_mm'', Some (decimal 100 0))]))"
proof -
  have fields: "soilpH infinite_form = Some (decimal 65 1)" "soilMoisture infinite_form = Some PosInfinity"
    "temperatureC infinite_form = Some (decimal 25 0)" "rainfallMm infinite_form = Some (decimal 100 0)"
    by (simp_all add: infinite_form_def filled_form_def)
  have numbers: "\<not> isNaN (decimal 65 1)" "\<not> isNaN PosInfinity" "\<not> isNaN (decimal 25 0)" "\<not> isNaN (decimal 100 0)"
    by (simp_all add: finite_not_NaN finite_inputs) (simp add: isNaN_def)
  have inf: "Number_toString PosInfinity = ''Infinity''"
    by (simp add: Number_toString_def)
  from submission_of_numbers [OF fields numbers] show ?thesis
    by (simp add: fields printed_inputs inf isFinite_def)
qed

text \<open>
  C2, amended. When some field is \<open>null\<close> or \<open>NaN\<close>, the submission appends exactly one
  message of the bot, which lists the names of the fields that are \<open>null\<close> or \<open>NaN\<close>,
  underscores replaced by spaces and the names joined by a comma and a space; no request
  is sent and the four input fields stay as they are. No request is sent exactly in this
  case: a field that holds an infinity does not stop the submission.
\<close>

theorem invalid_submission_is_rejected:
  "(invalid_field (soilpH s) \<or> invalid_field (soilMoisture s) \<or>
    invalid_field (temperatureC s) \<or> invalid_field (rainfallMm s) \<longrightarrow>
      handleGetRecommendations s =
        (s\<lparr>messages := messages s @
             [\<lparr>sender = Bot,
               text = ''Please enter valid values for: '' @ join '', '' (invalid_names s) @ ''.''\<rparr>]\<rparr>,
         None) \<and>
      inputs (fst (handleGetRecommendations s)) = inputs s \<and>
      length (messages (fst (handleGetRecommendations s))) = length (messages s) + 1) \<and>
   (snd (handleGetRecommendations s) = None) =
     (invalid_field (soilpH s) \<or> invalid_field (soilMoisture s) \<or>
      invalid_field (temperatureC s) \<or> invalid_field (rainfallMm s))"
proof (intro conjI impI)
  assume "invalid_field (soilpH s) \<or> invalid_field (soilMoisture s) \<or>
    invalid_field (temperatureC s) \<or> invalid_field (rainfallMm s)"
  then have "\<not> list_all (filled (farmInputs s)) requiredFields"
    by (auto simp add: allFieldsFilled)
  then have rejected: "handleGetRecommendations s =
        (s\<lparr>messages := messages s @
             [\<lparr>sender = Bot,
               text = ''Please enter valid values for: '' @ join '', '' (invalid_names s) @ ''.''\<rparr>]\<rparr>,
         None)"
    by (simp add: handleGetRecommendations_def missingFields_names)
  then show "handleGetRecommendations s =
        (s\<lparr>messages := messages s @
             [\<lparr>sender = Bot,
               text = ''Please enter valid values for: '' @ join '', '' (invalid_names s) @ ''.''\<rparr>]\<rparr>,
         None)" .
  from rejected show "inputs (fst (handleGetRecommendations s)) = inputs s"
    by (simp add: inputs_def)
  from rejected show "length (messages (fst (handleGetRecommendations s))) = length (messages s) + 1"
    by simp
next
  show "(snd (handleGetRecommendations s) = None) =
     (invalid_field (soilpH s) \<or> invalid_field (soilMoisture s) \<or>
      invalid_field (temperatureC s) \<or> invalid_field (rainfallMm s))"
    by (cases "list_all (filled (farmInputs s)) requiredFields")
       (simp_all add: handleGetRecommendations_def Let_def, simp_all add: allFieldsFilled)
qed

theorem invalid_submission_is_rejected_witness:
  "invalid_field (soilpH initial) \<and>
   handleGetRecommendations initial =
     (initial\<lparr>messages := messages initial @
          [\<lparr>sender = Bot,
            text = ''Please enter valid values for: Soil pH, Soil Moisture, Temperature C, Rainfall mm.''\<rparr>]\<rparr>,
      None)"
proof -
  have i: "invalid_field (soilpH initial)"
    by (simp add: initial_def invalid_field_def)
  have n: "invalid_names initial = [''Soil pH'', ''Soil Moisture'', ''Temperature C'', ''Rainfall mm'']"
    by (simp add: invalid_names_def initial_def invalid_field_def)
  from invalid_submission_is_rejected [of initial, THEN conjunct1] i
  have "handleGetRecommendations initial =
        (initial\<lparr>messages := messages initial @
             [\<lparr>sender = Bot,
               text = ''Please enter valid values for: '' @ join '', '' (invalid_names initial) @ ''.''\<rparr>]\<rparr>,
         None)"
    by simp
  with i show ?thesis by (simp add: n)
qed

subsection \<open>The settling of a request\<close>

lemma on_error_inputs: "inputs (on_error rt err s) = inputs s"
  by (simp add: on_error_def inputs_def)

lemma settle_failure: "chain rt out s = Inl err \<Longrightarrow> settle rt out s = on_error rt err s"
  by (simp add: settle_def)

lemma chain_not_ok:
  "\<not> ok r \<Longrightarrow>
   chain rt (Responded r) s = Inl (Error (''HTTP error! Status: '' @ digits (int (status r))))"
  by (simp add: chain_def on_response_def bind_result_def)

lemma chain_unparsed: "ok r \<Longrightarrow> json r = Inl err \<Longrightarrow> chain rt (Responded r) s = Inl err"
  by (simp add: chain_def on_response_def bind_result_def)

lemma chain_parsed:
  "ok r \<Longrightarrow> json r = Inr data \<Longrightarrow> chain rt (Responded r) s = on_data rt data s"
  by (simp add: chain_def on_response_def bind_result_def)

lemma chain_success:
  "chain rt out s = Inr t \<Longrightarrow>
   \<exists>r data s'. out = Responded r \<and> ok r \<and> json r = Inr data \<and>
     displayRecommendations rt data s = Inr s' \<and>
     t = s'\<lparr>soilpH := None, soilMoisture := None, temperatureC := None, rainfallMm := None\<rparr>"
  by (cases out)
     (auto simp add: chain_def on_response_def on_data_def dest!: bind_result_Inr split: if_splits)

text \<open>
  C4. Whenever the request fails, that is on a status outside 200 to 299, on a
  rejection of \<open>fetch\<close>, or on a rejection of \<open>response.json()\<close>, and in general whenever
  the promise chain ends in an error, exactly one message of the bot is appended, of the
  form \<open>Error fetching recommendations: <message>. Please try again.\<close>, and the four input
  fields keep their values.
\<close>

theorem failed_request_reports_error:
  "(\<not> ok r \<longrightarrow>
      settle rt (Responded r) s =
        s\<lparr>messages := messages s @
            [\<lparr>sender = Bot,
              text = ''Error fetching recommendations: HTTP error! Status: '' @
                     digits (int (status r)) @ ''. Please try again.''\<rparr>]\<rparr>) \<and>
   settle rt (Failed err) s =
     s\<lparr>messages := messages s @
         [\<lparr>sender = Bot,
           text = ''Error fetching recommendations: '' @ message_of rt err @
                  ''. Please try again.''\<rparr>]\<rparr> \<and>
   (ok r \<and> json r = Inl err \<longrightarrow>
      settle rt (Responded r) s =
        s\<lparr>messages := messages s @
            [\<lparr>sender = Bot,
              text = ''Error fetching recommendations: '' @ message_of rt err @
                     ''. Please try again.''\<rparr>]\<rparr>) \<and>
   (chain rt out s = Inl err \<longrightarrow>
      settle rt out s =
        s\<lparr>messages := messages s @
            [\<lparr>sender = Bot,
              text = ''Error fetching recommendations: '' @ message_of rt err @
                     ''. Please try again.''\<rparr>]\<rparr> \<and>
      inputs (settle rt out s) = inputs s)"
proof -
  have status: "settle rt (Responded r) s =
        s\<lparr>messages := messages s @
            [\<lparr>sender = Bot,
              text = ''Error fetching recommendations: HTTP error! Status: '' @
                     digits (int (status r)) @ ''. Please try again.''\<rparr>]\<rparr>" if "\<not> ok r"
    using settle_failure [OF chain_not_ok [OF that], of rt s]
    by (simp add: on_error_def message_of_def)
  have rejected: "settle rt (Failed err) s =
     s\<lparr>messages := messages s @
         [\<lparr>sender = Bot,
           text = ''Error fetching recommendations: '' @ message_of rt err @
                  ''. Please try again.''\<rparr>]\<rparr>"
    by (simp add: settle_def chain_def on_error_def)
  have unparsed: "settle rt (Responded r) s =
        s\<lparr>messages := messages s @
            [\<lparr>sender = Bot,
              text = ''Error fetching recommendations: '' @ message_of rt err @
                     ''. Please try again.''\<rparr>]\<rparr>" if "ok r" "json r = Inl err"
    using settle_failure [OF chain_unparsed [OF that], of rt s]
    by (simp add: on_error_def)
  have any: "settle rt out s =
        s\<lparr>messages := messages s @
            [\<lparr>sender = Bot,
              text = ''Error fetching recommendations: '' @ message_of rt err @
                     ''. Please try again.''\<rparr>]\<rparr> \<and>
      inputs (settle rt out s) = inputs s" if "chain rt out s = Inl err"
    using settle_failure [OF that] by (simp add: on_error_def inputs_def)
  from status rejected unparsed any show ?thesis by blast
qed

lemma digits_404: "digits 404 = ''404''"
  by code_simp

theorem failed_request_reports_error_witness:
  "\<not> ok \<lparr>status = 404, json = Inr Null\<rparr> \<and>
   settle sample_engine (Responded \<lparr>status = 404, json = Inr Null\<rparr>) filled_form =
     filled_form\<lparr>messages := messages filled_form @
       [\<lparr>sender = Bot,
         text = ''Error fetching recommendations: HTTP error! Status: 404. Please try again.''\<rparr>]\<rparr> \<and>
   ok \<lparr>status = 200, json = Inl (Rejection ''Unexpected end of JSON input'')\<rparr> \<and>
   settle sample_engine
       (Responded \<lparr>status = 200, json = Inl (Rejection ''Unexpected end of JSON input'')\<rparr>)
       filled_form =
     filled_form\<lparr>messages := messages filled_form @
       [\<lparr>sender = Bot,
         text = ''Error fetching recommendations: Unexpected end of JSON input. Please try again.''\<rparr>]\<rparr> \<and>
   chain sample_engine (Failed (Rejection ''Failed to fetch'')) filled_form =
     Inl (Rejection ''Failed to fetch'') \<and>
   inputs (settle sample_engine (Failed (Rejection ''Failed to fetch'')) filled_form) =
     inputs filled_form"
proof -
  have a: "\<not> ok \<lparr>status = 404, json = Inr Null\<rparr>"
    by (simp add: ok_def)
  have b: "ok \<lparr>status = 200, json = Inl (Rejection ''Unexpected end of JSON input'')\<rparr>"
    "json \<lparr>status = 200, json = Inl (Rejection ''Unexpected end of JSON input'')\<rparr> =
       Inl (Rejection ''Unexpected end of JSON input'')"
    by (simp_all add: ok_def)
  have c: "chain sample_engine (Failed (Rejection ''Failed to fetch'')) filled_form =
     Inl (Rejection ''Failed to fetch'')"
    by (simp add: chain_def)
  from failed_request_reports_error
         [where r = "\<lparr>status = 404, json = Inr Null\<rparr>" and rt = sample_engine and s = filled_form]
       a
  have one: "settle sample_engine (Responded \<lparr>status = 404, json = Inr Null\<rparr>) filled_form =
     filled_form\<lparr>messages := messages filled_form @
       [\<lparr>sender = Bot,
         text = ''Error fetching recommendations: HTTP error! Status: 404. Please try again.''\<rparr>]\<rparr>"
    by (simp add: digits_404)
  from failed_request_reports_error
         [where r = "\<lparr>status = 200, json = Inl (Rejection ''Unexpected end of JSON input'')\<rparr>"
            and err = "Rejection ''Unexpected end of JSON input''"
            and rt = sample_engine and s = filled_form]
       b
  have two: "settle sample_engine
       (Responded \<lparr>status = 200, json = Inl (Rejection ''Unexpected end of JSON input'')\<rparr>)
       filled_form =
     filled_form\<lparr>messages := messages filled_form @
       [\<lparr>sender = Bot,
         text = ''Error fetching recommendations: Unexpected end of JSON input. Please try again.''\<rparr>]\<rparr>"
    by (simp add: message_of_def)
  from failed_request_reports_error
         [where out = "Failed (Rejection ''Failed to fetch'')" and err = "Rejection ''Failed to fetch''"
            and rt = sample_engine and s = filled_form]
       c
  have three: "inputs (settle sample_engine (Failed (Rejection ''Failed to fetch'')) filled_form) =
     inputs filled_form"
    by blast
  from a b(1) c one two three show ?thesis by blast
qed

text \<open>
  C5, as stated, fails for a response with status 200 whose payload the renderer cannot
  format: the renderer throws, the reset is skipped, the error message is appended and
  the fields keep the submitted values.
\<close>

theorem malformed_payload_keeps_inputs:
  "ok \<lparr>status = 200, json = Inr malformed_payload\<rparr> \<and>
   json \<lparr>status = 200, json = Inr malformed_payload\<rparr> = Inr malformed_payload \<and>
   displayRecommendations sample_engine malformed_payload filled_form =
     Inl (TypeError ''rec.Estimated_ROI_Percentage'' (ReadOfNullish Undefined ''toFixed'')) \<and>
   settle sample_engine (Responded \<lparr>status = 200, json = Inr malformed_payload\<rparr>) filled_form =
     on_error sample_engine (TypeError ''rec.Estimated_ROI_Percentage'' (ReadOfNullish Undefined ''toFixed'')) filled_form \<and>
   inputs (settle sample_engine (Responded \<lparr>status = 200, json = Inr malformed_payload\<rparr>) filled_form) =
     (Some (decimal 65 1), Some (decimal 40 0), Some (decimal 25 0), Some (decimal 100 0))"
proof -
  have d: "displayRecommendations sample_engine malformed_payload filled_form =
      Inl (TypeError ''rec.Estimated_ROI_Percentage'' (ReadOfNullish Undefined ''toFixed''))"
    by code_simp
  then have "chain sample_engine (Responded \<lparr>status = 200, json = Inr malformed_payload\<rparr>) filled_form =
      Inl (TypeError ''rec.Estimated_ROI_Percentage'' (ReadOfNullish Undefined ''toFixed''))"
    by (simp add: chain_def on_response_def ok_def on_data_def bind_result_def)
  from settle_failure [OF this] d show ?thesis
    by (simp add: on_error_inputs ok_def) (simp add: inputs_def filled_form_def)
qed

text \<open>
  C5, amended. On a response with a status from 200 to 299 whose body parses and whose
  payload the renderer formats without throwing, the message of the renderer is appended
  and then all four input fields are reset to \<open>null\<close>. When the renderer throws on the
  payload, the error is reported like a failure of the request and the fields keep their
  values. Whenever the settling of a request changes the input fields at all, it was on
  the first path.
\<close>

theorem successful_response_resets_inputs:
  "(ok r \<and> json r = Inr data \<and> displayRecommendations rt data s = Inr s' \<longrightarrow>
      settle rt (Responded r) s =
        s'\<lparr>soilpH := None, soilMoisture := None, temperatureC := None, rainfallMm := None\<rparr> \<and>
      inputs (settle rt (Responded r) s) = (None, None, None, None) \<and>
      (\<exists>m. messages (settle rt (Responded r) s) = messages s @ [m])) \<and>
   (ok r \<and> json r = Inr data \<and> displayRecommendations rt data s = Inl err \<longrightarrow>
      settle rt (Responded r) s = on_error rt err s \<and>
      inputs (settle rt (Responded r) s) = inputs s) \<and>
   (inputs (settle rt out s) \<noteq> inputs s \<longrightarrow>
      (\<exists>r data s'. out = Responded r \<and> ok r \<and> json r = Inr data \<and>
         displayRecommendations rt data s = Inr s'))"
proof -
  have reset: "settle rt (Responded r) s =
        s'\<lparr>soilpH := None, soilMoisture := None, temperatureC := None, rainfallMm := None\<rparr> \<and>
      inputs (settle rt (Responded r) s) = (None, None, None, None) \<and>
      (\<exists>m. messages (settle rt (Responded r) s) = messages s @ [m])"
    if "ok r \<and> json r = Inr data \<and> displayRecommendations rt data s = Inr s'"
  proof -
    from that have "settle rt (Responded r) s =
        s'\<lparr>soilpH := None, soilMoisture := None, temperatureC := None, rainfallMm := None\<rparr>"
      by (simp add: settle_def chain_parsed on_data_def bind_result_def)
    with settle_appends_one [of rt "Responded r" s] show ?thesis
      by (simp add: inputs_def)
  qed
  have thrown: "settle rt (Responded r) s = on_error rt err s \<and>
      inputs (settle rt (Responded r) s) = inputs s"
    if "ok r \<and> json r = Inr data \<and> displayRecommendations rt data s = Inl err"
  proof -
    from that have "chain rt (Responded r) s = Inl err"
      by (simp add: chain_parsed on_data_def bind_result_def)
    from settle_failure [OF this] show ?thesis by (simp add: on_error_inputs)
  qed
  have only: "\<exists>r data s'. out = Responded r \<and> ok r \<and> json r = Inr data \<and>
         displayRecommendations rt data s = Inr s'"
    if "inputs (settle rt out s) \<noteq> inputs s"
  proof (cases "chain rt out s")
    case (Inl err)
    with that show ?thesis by (simp add: settle_def on_error_inputs)
  next
    case (Inr t)
    from chain_success [OF this] show ?thesis by blast
  qed
  from reset thrown only show ?thesis by blast
qed

theorem successful_response_resets_inputs_witness:
  "ok \<lparr>status = 200, json = Inr empty_payload\<rparr> \<and>
   json \<lparr>status = 200, json = Inr empty_payload\<rparr> = Inr empty_payload \<and>
   displayRecommendations sample_engine empty_payload filled_form =
     Inr (filled_form\<lparr>messages := messages filled_form @
           [\<lparr>sender = Bot, text = ''No recommendations found for the provided data.''\<rparr>]\<rparr>) \<and>
   inputs (settle sample_engine (Responded \<lparr>status = 200, json = Inr empty_payload\<rparr>) filled_form) =
     (None, None, None, None) \<and>
   inputs (settle sample_engine (Responded \<lparr>status = 200, json = Inr empty_payload\<rparr>) filled_form) \<noteq>
     inputs filled_form \<and>
   ok \<lparr>status = 200, json = Inr malformed_payload\<rparr> \<and>
   json \<lparr>status = 200, json = Inr malformed_payload\<rparr> = Inr malformed_payload \<and>
   displayRecommendations sample_engine malformed_payload filled_form =
     Inl (TypeError ''rec.Estimated_ROI_Percentage'' (ReadOfNullish Undefined ''toFixed'')) \<and>
   inputs (settle sample_engine (Responded \<lparr>status = 200, json = Inr malformed_payload\<rparr>) filled_form) =
     inputs filled_form"
proof -
  have a: "ok \<lparr>status = 200, json = Inr empty_payload\<rparr>"
    "json \<lparr>status = 200, json = Inr empty_payload\<rparr> = Inr empty_payload"
    "ok \<lparr>status = 200, json = Inr malformed_payload\<rparr>"
    "json \<lparr>status = 200, json = Inr malformed_payload\<rparr> = Inr malformed_payload"
    by (simp_all add: ok_def)
  have d: "displayRecommendations sample_engine empty_payload filled_form =
     Inr (filled_form\<lparr>messages := messages filled_form @
           [\<lparr>sender = Bot, text = ''No recommendations found for the provided data.''\<rparr>]\<rparr>)"
    by code_simp
  have e: "displayRecommendations sample_engine malformed_payload filled_form =
     Inl (TypeError ''rec.Estimated_ROI_Percentage'' (ReadOfNullish Undefined ''toFixed''))"
    by code_simp
  have f: "inputs filled_form \<noteq> (None, None, None, None)"
    by (simp add: inputs_def filled_form_def)
  from successful_response_resets_inputs
         [where r = "\<lparr>status = 200, json = Inr empty_payload\<rparr>" and data = empty_payload
            and rt = sample_engine and s = filled_form
            and s' = "filled_form\<lparr>messages := messages filled_form @
              [\<lparr>sender = Bot, text = ''No recommendations found for the provided data.''\<rparr>]\<rparr>"]
       a(1,2) d
  have g: "inputs (settle sample_engine (Responded \<lparr>status = 200, json = Inr empty_payload\<rparr>) filled_form) =
     (None, None, None, None)"
    by blast
  from successful_response_resets_inputs
         [where r = "\<lparr>status = 200, json = Inr malformed_payload\<rparr>" and data = malformed_payload
            and rt = sample_engine and s = filled_form
            and err = "TypeError ''rec.Estimated_ROI_Percentage'' (ReadOfNullish Undefined ''toFixed'')"]
       a(3,4) e
  have h: "inputs (settle sample_engine (Responded \<lparr>status = 200, json = Inr malformed_payload\<rparr>) filled_form) =
     inputs filled_form"
    by blast
  from a d e f g h show ?thesis by simp
qed

subsection \<open>The renderer\<close>

text \<open>The length of a non-empty array, a rounded integer, is greater than zero.\<close>

lemma bit_length_nonneg: "0 \<le> bit_length n"
  by (induction n rule: bit_length.induct) (simp add: bit_length.simps)

lemma bit_length_lower: "0 < n \<Longrightarrow> 2 ^ nat (bit_length n - 1) \<le> n"
proof (induction n rule: bit_length.induct)
  case (1 n)
  show ?case
  proof (cases "n div 2 = 0")
    case True
    with 1(2) have "n = 1" by presburger
    then show ?thesis by (simp add: bit_length.simps [of 1] bit_length.simps [of 0])
  next
    case False
    with 1(2) have pos: "0 < n div 2" by presburger
    with 1 have ih: "2 ^ nat (bit_length (n div 2) - 1) \<le> n div 2" by simp
    from pos have "bit_length (n div 2) = 1 + bit_length (n div 2 div 2)"
      by (simp add: bit_length.simps [of "n div 2"])
    with bit_length_nonneg [of "n div 2 div 2"] have one: "1 \<le> bit_length (n div 2)" by simp
    from 1(2) have "bit_length n - 1 = bit_length (n div 2)"
      by (simp add: bit_length.simps [of n])
    moreover from one have "nat (bit_length (n div 2)) = Suc (nat (bit_length (n div 2) - 1))"
      by simp
    ultimately have "(2::int) ^ nat (bit_length n - 1) = 2 * 2 ^ nat (bit_length (n div 2) - 1)"
      by simp
    also from ih have "\<dots> \<le> 2 * (n div 2)" by simp
    also have "\<dots> \<le> n" by presburger
    finally show ?thesis .
  qed
qed

lemma round_half_even_lower: "p div q \<le> round_half_even p q"
  by (simp add: round_half_even_def Let_def)

lemma normalize_dyadic_positive: "0 < m \<Longrightarrow> 0 < fst (normalize_dyadic m e)"
proof (induction m e rule: normalize_dyadic.induct)
  case (1 m e)
  show ?case
  proof (cases "even m")
    case True
    with 1(2) have "0 < m div 2" by presburger
    with 1 True show ?thesis by (simp add: normalize_dyadic.simps [of m e])
  next
    case False
    with 1(2) show ?thesis by (simp add: normalize_dyadic.simps [of m e])
  qed
qed

lemma round_to_double_positive:
  assumes "0 < p"
  shows "greater_than_zero (round_to_double p 1)"
proof -
  define e where "e = max (floor_log2 p 1) (- 1022)"
  define n where "n = round_half_even (p * 2 ^ nat (52 - e)) (2 ^ nat (e - 52))"
  from assms have fl: "floor_log2 p 1 = bit_length p - 1"
    by (simp add: floor_log2_def)
  from assms bit_length_lower [of p] have "0 < bit_length p"
    using bit_length_nonneg [of "p div 2"] by (simp add: bit_length.simps [of p])
  with fl have e: "e = bit_length p - 1" and e0: "0 \<le> e"
    by (simp_all add: e_def)
  have le: "(2::int) ^ nat (e - 52) \<le> p * 2 ^ nat (52 - e)"
  proof (cases "e \<le> 52")
    case True
    from assms have "1 * 1 \<le> p * 2 ^ nat (52 - e)"
      by (intro mult_mono) simp_all
    with True show ?thesis by simp
  next
    case False
    then have "nat (e - 52) \<le> nat e" by simp
    then have "(2::int) ^ nat (e - 52) \<le> 2 ^ nat e"
      by (intro power_increasing) simp_all
    also from bit_length_lower [OF assms] e have "\<dots> \<le> p" by simp
    finally show ?thesis using False by simp
  qed
  have "0 < (2::int) ^ nat (e - 52)" by simp
  with le have "0 < (p * 2 ^ nat (52 - e)) div (2 ^ nat (e - 52))"
    by (simp only: pos_imp_zdiv_pos_iff)
  with round_half_even_lower [of "p * 2 ^ nat (52 - e)" "2 ^ nat (e - 52)"]
  have n: "0 < n" by (simp add: n_def)
  from normalize_dyadic_positive [OF n, of "e - 52"]
  have "greater_than_zero (case normalize_dyadic n (e - 52) of (m, e') \<Rightarrow> Finite m e')"
    by (cases "normalize_dyadic n (e - 52)") (simp add: greater_than_zero_def)
  with assms show ?thesis
    by (simp add: round_to_double_def Let_def e_def [symmetric] n_def [symmetric]
        greater_than_zero_def)
qed

lemma nonempty_array_length:
  "xs \<noteq> [] \<Longrightarrow> greater_than_zero (number_of_nat (length xs))"
  by (simp add: number_of_nat_def round_to_double_positive)

lemma empty_array_length: "\<not> greater_than_zero (number_of_nat 0)"
  by (simp add: number_of_nat_def round_to_double_def greater_than_zero_def)

lemma has_recommendations_array:
  "map_of ps ''recommendations'' = Some (Arr xs) \<Longrightarrow>
   has_recommendations rt (Obj ps) = Inr (xs \<noteq> [])"
  by (cases "xs = []")
     (simp_all add: has_recommendations_def bind_result_def nonempty_array_length
       empty_array_length)

lemma display_array:
  "map_of ps ''recommendations'' = Some (Arr xs) \<Longrightarrow> xs \<noteq> [] \<Longrightarrow>
   displayRecommendations rt (Obj ps) s =
     bind_result (forEach rt xs 0 ''Here are the top recommendations:\<newline>'') (\<lambda>responseText.
       Inr (s\<lparr>messages := messages s @ [\<lparr>sender = Bot, text = responseText\<rparr>]\<rparr>))"
  by (simp add: displayRecommendations_def has_recommendations_array bind_result_def
      call_forEach_def)

lemma display_nothing:
  "has_recommendations rt data = Inr False \<Longrightarrow>
   displayRecommendations rt data s =
     Inr (s\<lparr>messages := messages s @
            [\<lparr>sender = Bot, text = ''No recommendations found for the provided data.''\<rparr>]\<rparr>)"
  by (simp add: displayRecommendations_def bind_result_def)









lemma has_recommendations_absent:
  "has_recommendations rt Undefined = Inr False"
  "has_recommendations rt Null = Inr False"
  "map_of ps ''recommendations'' = None \<Longrightarrow> has_recommendations rt (Obj ps) = Inr False"
  "map_of ps ''recommendations'' = Some Null \<Longrightarrow> has_recommendations rt (Obj ps) = Inr False"
  "map_of ps ''recommendations'' = Some Undefined \<Longrightarrow> has_recommendations rt (Obj ps) = Inr False"
  by (simp_all add: has_recommendations_def bind_result_def)



lemma get_field: "rec \<noteq> Undefined \<Longrightarrow> rec \<noteq> Null \<Longrightarrow> get rec name = Inr (field rec name)"
  by (cases rec) (simp_all add: field_def)

lemma get_Inr: "get rec name = Inr v \<Longrightarrow> rec \<noteq> Undefined \<and> rec \<noteq> Null \<and> field rec name = v"
  by (cases rec) (auto simp add: field_def)

lemma is_number_Num: "is_number v \<Longrightarrow> \<exists>x. v = Num x"
  by (cases v) (simp_all add: is_number_def)

lemma call_toFixed_Inr: "call_toFixed v f = Inr t \<Longrightarrow> is_number v"
  by (cases v) (simp_all add: is_number_def)

lemma printable_ToString: "printable v \<Longrightarrow> \<exists>t. ToString v = Inr t"
  by (cases "ToString v") (simp_all add: printable_def)

lemma ToString_Inr: "ToString v = Inr t \<Longrightarrow> printable v"
  by (simp add: printable_def)

lemma printable_ToNumber: "printable v \<Longrightarrow> \<exists>n. ToNumber rt v = Inr n"
  by (cases v) (auto simp add: bind_result_def printable_def split: if_splits sum.splits)

lemma ToNumber_Inr: "ToNumber rt v = Inr n \<Longrightarrow> printable v"
  by (cases v) (auto simp add: printable_def dest!: bind_result_Inr split: if_splits)

lemma callback_returns:
  assumes "record_accepted rec"
  shows "\<exists>t. callback rt acc rec k = Inr t"
proof -
  from assms have present: "rec \<noteq> Undefined" "rec \<noteq> Null"
    by (simp_all add: record_accepted_def)
  from assms obtain crop_text score_number explanation_text
    where texts: "ToString (field rec ''Crop'') = Inr crop_text"
      "ToNumber rt (field rec ''Pest_Risk_Score'') = Inr score_number"
      "ToString (field rec ''Explanation'') = Inr explanation_text"
    unfolding record_accepted_def
    by (meson printable_ToString printable_ToNumber)
  from assms obtain roi yield price profit
    where numbers: "field rec ''Estimated_ROI_Percentage'' = Num roi"
      "field rec ''Predicted_Yield'' = Num yield"
      "field rec ''Predicted_Price'' = Num price"
      "field rec ''Estimated_Profit'' = Num profit"
    unfolding record_accepted_def
    by (meson is_number_Num)
  show ?thesis
    by (simp add: callback_def get_field [OF present] texts numbers bind_result_def)
qed

lemma callback_accepted:
  assumes "callback rt acc rec k = Inr t"
  shows "record_accepted rec"
  using assms unfolding callback_def record_accepted_def
  by (auto dest!: bind_result_Inr located_Inr get_Inr
       dest: ToString_Inr ToNumber_Inr call_toFixed_Inr)

lemma forEach_returns_iff:
  "(\<exists>t. forEach rt xs k acc = Inr t) = list_all record_accepted xs"
proof (induction xs arbitrary: k acc)
  case Nil
  show ?case by simp
next
  case (Cons x xs)
  show ?case
  proof
    assume "\<exists>t. forEach rt (x # xs) k acc = Inr t"
    then obtain t t' where "callback rt acc x k = Inr t'" "forEach rt xs (Suc k) t' = Inr t"
      by (auto dest!: bind_result_Inr)
    with Cons.IH [of "Suc k" t'] show "list_all record_accepted (x # xs)"
      by (auto dest: callback_accepted)
  next
    assume "list_all record_accepted (x # xs)"
    then have x: "record_accepted x" and xs: "list_all record_accepted xs" by simp_all
    from callback_returns [OF x, of rt acc k] obtain t' where t': "callback rt acc x k = Inr t'" ..
    from xs Cons.IH [of "Suc k" t'] obtain t where "forEach rt xs (Suc k) t' = Inr t" by blast
    with t' show "\<exists>t. forEach rt (x # xs) k acc = Inr t"
      by (simp add: bind_result_def)
  qed
qed

lemma display_array_returns_iff:
  assumes "map_of ps ''recommendations'' = Some (Arr xs)"
  shows "(\<exists>m. displayRecommendations rt (Obj ps) s =
            Inr (s\<lparr>messages := messages s @ [\<lparr>sender = Bot, text = m\<rparr>]\<rparr>)) =
         list_all record_accepted xs"
    and "(\<exists>s'. displayRecommendations rt (Obj ps) s = Inr s') = list_all record_accepted xs"
proof -
  have both: "(\<exists>m. displayRecommendations rt (Obj ps) s =
            Inr (s\<lparr>messages := messages s @ [\<lparr>sender = Bot, text = m\<rparr>]\<rparr>)) =
         list_all record_accepted xs \<and>
      (\<exists>s'. displayRecommendations rt (Obj ps) s = Inr s') = list_all record_accepted xs"
  proof (cases "xs = []")
    case True
    with assms have "has_recommendations rt (Obj ps) = Inr False"
      by (simp add: has_recommendations_array)
    from display_nothing [OF this, of s] True show ?thesis by auto
  next
    case False
    note shape = display_array [OF assms False, of rt s]
    show ?thesis
    proof (cases "forEach rt xs 0 ''Here are the top recommendations:\<newline>''")
      case (Inl err)
      with forEach_returns_iff [of rt xs 0 "''Here are the top recommendations:\<newline>''"]
      have "\<not> list_all record_accepted xs" by simp
      with shape Inl show ?thesis by (simp add: bind_result_def)
    next
      case (Inr t)
      with forEach_returns_iff [of rt xs 0 "''Here are the top recommendations:\<newline>''"]
      have "list_all record_accepted xs" by simp
      with shape Inr show ?thesis by (auto simp add: bind_result_def)
    qed
  qed
  from both show "(\<exists>m. displayRecommendations rt (Obj ps) s =
            Inr (s\<lparr>messages := messages s @ [\<lparr>sender = Bot, text = m\<rparr>]\<rparr>)) =
         list_all record_accepted xs" ..
  from both show "(\<exists>s'. displayRecommendations rt (Obj ps) s = Inr s') = list_all record_accepted xs" ..
qed

lemma has_recommendations_other:
  "has_recommendations rt (Bool b) = Inr False"
  "has_recommendations rt (Num x) = Inr False"
  "has_recommendations rt (Str t) = Inr False"
  "has_recommendations rt (Arr xs) = Inr False"
  "map_of ps ''recommendations'' = Some (Bool b) \<Longrightarrow> has_recommendations rt (Obj ps) = Inr False"
  "map_of ps ''recommendations'' = Some (Num x) \<Longrightarrow> has_recommendations rt (Obj ps) = Inr False"
  "map_of ps ''recommendations'' = Some (Str []) \<Longrightarrow> has_recommendations rt (Obj ps) = Inr False"
  by (simp_all add: has_recommendations_def bind_result_def greater_than_zero_def)

lemma accepted_payload_is_rendered:
  assumes "payload_accepted data"
  shows "\<exists>m. displayRecommendations rt data s =
           Inr (s\<lparr>messages := messages s @ [\<lparr>sender = Bot, text = m\<rparr>]\<rparr>)"
proof (cases "\<exists>ps xs. data = Obj ps \<and> map_of ps ''recommendations'' = Some (Arr xs)")
  case True
  then obtain ps xs where d: "data = Obj ps" "map_of ps ''recommendations'' = Some (Arr xs)"
    by blast
  with assms have "list_all record_accepted xs"
    by (simp add: payload_accepted_def)
  with display_array_returns_iff(1) [OF d(2), of rt s] d(1) show ?thesis by simp
next
  case False
  with assms have "has_recommendations rt data = Inr False"
    by (cases data)
       (auto simp add: payload_accepted_def has_recommendations_absent has_recommendations_other
         split: option.splits jsval.splits)
  from display_nothing [OF this, of s] show ?thesis by blast
qed

lemma located_Inl: "located site r = Inl err \<Longrightarrow> \<exists>c. err = TypeError site c"
  by (cases r) auto

lemma bind_result_Inl:
  "bind_result r f = Inl err \<Longrightarrow> r = Inl err \<or> (\<exists>x. r = Inr x \<and> f x = Inl err)"
  by (cases r) (simp_all add: bind_result_def)

lemma callback_Inl: "callback rt acc rec k = Inl err \<Longrightarrow> \<exists>site c. err = TypeError site c"
  unfolding callback_def
  by (auto dest!: bind_result_Inl located_Inl)

lemma forEach_Inl: "forEach rt xs k acc = Inl err \<Longrightarrow> \<exists>site c. err = TypeError site c"
  by (induction xs arbitrary: k acc) (auto dest!: bind_result_Inl callback_Inl)

lemma has_recommendations_Inl:
  "has_recommendations rt data = Inl err \<Longrightarrow> \<exists>site c. err = TypeError site c"
  unfolding has_recommendations_def
  by (auto dest!: bind_result_Inl located_Inl split: if_splits)

lemma call_forEach_Inl:
  "call_forEach rt recs acc = Inl err \<Longrightarrow> \<exists>site c. err = TypeError site c"
  unfolding call_forEach_def
  by (auto dest!: forEach_Inl split: jsval.splits)

lemma display_Inl:
  "displayRecommendations rt data s = Inl err \<Longrightarrow> \<exists>site c. err = TypeError site c"
  unfolding displayRecommendations_def
  by (auto dest!: bind_result_Inl has_recommendations_Inl call_forEach_Inl located_Inl
       split: if_splits)

text \<open>
  C7, as stated, fails: for a payload whose only record has no fields the renderer
  throws a \<open>TypeError\<close> (it calls \<open>toFixed\<close> on \<open>undefined\<close>) and appends nothing.
\<close>

theorem renderer_throws_on_record_without_numbers:
  "displayRecommendations sample_engine malformed_payload initial =
     Inl (TypeError ''rec.Estimated_ROI_Percentage'' (ReadOfNullish Undefined ''toFixed''))"
  by code_simp

text \<open>
  C7, amended. The renderer returns, having appended exactly one message of the bot,
  for every payload it accepts: one whose \<open>recommendations\<close> is missing, \<open>null\<close>, a
  number, a boolean, an empty string, or an array of records that each hold numbers in
  the four fields formatted with \<open>toFixed\<close> and convertible values in \<open>Crop\<close>,
  \<open>Pest_Risk_Score\<close> and \<open>Explanation\<close>. When \<open>recommendations\<close> is an array, the renderer
  returns exactly when every record is of this kind; otherwise it throws. Whatever the
  renderer throws is a \<open>TypeError\<close>.
\<close>

theorem renderer_returns_on_accepted_payload:
  "(payload_accepted data \<longrightarrow>
      (\<exists>m. displayRecommendations rt data s =
             Inr (s\<lparr>messages := messages s @ [\<lparr>sender = Bot, text = m\<rparr>]\<rparr>))) \<and>
   (map_of ps ''recommendations'' = Some (Arr xs) \<longrightarrow>
      (\<exists>s'. displayRecommendations rt (Obj ps) s = Inr s') = list_all record_accepted xs) \<and>
   (displayRecommendations rt data' s = Inl err \<longrightarrow> (\<exists>site c. err = TypeError site c))"
proof (intro conjI impI)
  assume "payload_accepted data"
  then show "\<exists>m. displayRecommendations rt data s =
             Inr (s\<lparr>messages := messages s @ [\<lparr>sender = Bot, text = m\<rparr>]\<rparr>)"
    by (rule accepted_payload_is_rendered)
next
  assume "map_of ps ''recommendations'' = Some (Arr xs)"
  then show "(\<exists>s'. displayRecommendations rt (Obj ps) s = Inr s') = list_all record_accepted xs"
    by (rule display_array_returns_iff(2))
next
  assume "displayRecommendations rt data' s = Inl err"
  then show "\<exists>site c. err = TypeError site c"
    by (rule display_Inl)
qed

theorem renderer_returns_on_accepted_payload_witness:
  "payload_accepted (Obj [(''recommendations'', Arr [as_payload maize])]) \<and>
   (\<exists>m. displayRecommendations sample_engine
          (Obj [(''recommendations'', Arr [as_payload maize])]) initial =
        Inr (initial\<lparr>messages := messages initial @ [\<lparr>sender = Bot, text = m\<rparr>]\<rparr>)) \<and>
   map_of [(''recommendations'', Arr [Obj []])] ''recommendations'' = Some (Arr [Obj []]) \<and>
   (\<exists>s'. displayRecommendations sample_engine (Obj [(''recommendations'', Arr [Obj []])]) initial =
        Inr s') = list_all record_accepted [Obj []] \<and>
   list_all record_accepted [Obj []] = False \<and>
   displayRecommendations sample_engine (Obj [(''recommendations'', Arr [Obj []])]) initial =
     Inl (TypeError ''rec.Estimated_ROI_Percentage'' (ReadOfNullish Undefined ''toFixed'')) \<and>
   (\<exists>site c. TypeError ''rec.Estimated_ROI_Percentage'' (ReadOfNullish Undefined ''toFixed'') =
      TypeError site c)"
proof -
  have a: "payload_accepted (Obj [(''recommendations'', Arr [as_payload maize])])"
    by code_simp
  have b: "map_of [(''recommendations'', Arr [Obj []])] ''recommendations'' = Some (Arr [Obj []])"
    by simp
  have c: "list_all record_accepted [Obj []] = False"
    by code_simp
  note t = renderer_returns_on_accepted_payload
      [where data = "Obj [(''recommendations'', Arr [as_payload maize])]"
         and rt = sample_engine and s = initial
         and ps = "[(''recommendations'', Arr [Obj []])]" and xs = "[Obj []]"
         and data' = "Obj [(''recommendations'', Arr [Obj []])]"
         and err = "TypeError ''rec.Estimated_ROI_Percentage'' (ReadOfNullish Undefined ''toFixed'')"]
  have f: "displayRecommendations sample_engine (Obj [(''recommendations'', Arr [Obj []])]) initial =
     Inl (TypeError ''rec.Estimated_ROI_Percentage'' (ReadOfNullish Undefined ''toFixed''))"
    by code_simp
  from t [THEN conjunct2, THEN conjunct2] f
  have g: "\<exists>site c. TypeError ''rec.Estimated_ROI_Percentage'' (ReadOfNullish Undefined ''toFixed'') =
      TypeError site c"
    by (rule mp)
  from t [THEN conjunct1] a have d: "\<exists>m. displayRecommendations sample_engine
          (Obj [(''recommendations'', Arr [as_payload maize])]) initial =
        Inr (initial\<lparr>messages := messages initial @ [\<lparr>sender = Bot, text = m\<rparr>]\<rparr>)"
    by (rule mp)
  from t [THEN conjunct2, THEN conjunct1] b have e: "(\<exists>s'. displayRecommendations sample_engine
          (Obj [(''recommendations'', Arr [Obj []])]) initial = Inr s') =
        list_all record_accepted [Obj []]"
    by (rule mp)
  show ?thesis
    by (intro conjI a d b e c f g)
qed

end
